(* ===== verification/Prelude.thy ===== *)
theory Prelude
  imports Complex_Main "HOL-Library.Sublist" "HOL-Library.Monad_Syntax"
begin

text \<open>
  Shared vocabulary of the development: the characters the JavaScript code tests
  (decimal digits, line terminators), the decimal text of numbers as JavaScript's
  \<open>Number.prototype.toString\<close> and the \<open>\d\<close> regular-expression class read it,
  and the generic lemmas on these that the component theories use.
  Strings are \<open>char list\<close>s; a JavaScript string is a sequence of UTF-16 code units,
  and the model keeps to the code units that fit one \<open>char\<close> (all the text the
  code inspects is ASCII).
\<close>

named_theorems text_simps "evaluation rules for decimal text and character classes"


subsection \<open>Character classes\<close>

definition is_digit :: "char \<Rightarrow> bool" where
  "is_digit c \<longleftrightarrow> (48::nat) \<le> of_char c \<and> (of_char c :: nat) \<le> 57"

definition digit_value :: "char \<Rightarrow> nat" where
  "digit_value c = of_char c - 48"

definition digit_char :: "nat \<Rightarrow> char" where
  "digit_char n = ''0123456789'' ! n"

text \<open>
  The line terminators that the regular-expression atom \<open>.\<close> does not match
  (ECMAScript: LF, CR, U+2028, U+2029; the last two are not single code units of
  the \<open>char\<close> type and cannot occur in the model's strings).
\<close>

definition is_line_terminator :: "char \<Rightarrow> bool" where
  "is_line_terminator c \<longleftrightarrow> c = CHR 0x0A \<or> c = CHR 0x0D"

subsection \<open>Decimal text of numbers\<close>

fun string_of_nat :: "nat \<Rightarrow> string" where
  "string_of_nat n =
     (if n < 10 then [digit_char n] else string_of_nat (n div 10) @ [digit_char (n mod 10)])"

declare string_of_nat.simps [simp del]

definition string_of_int :: "int \<Rightarrow> string" where
  "string_of_int i = (if i < 0 then CHR ''-'' # string_of_nat (nat (- i)) else string_of_nat (nat i))"

definition nat_of_digits :: "string \<Rightarrow> nat" where
  "nat_of_digits s = foldl (\<lambda>n c. 10 * n + digit_value c) 0 s"

subsection \<open>Lemmas on digits\<close>

lemma digit_char_is_digit [text_simps]: "n < 10 \<Longrightarrow> is_digit (digit_char n)"
  unfolding digit_char_def is_digit_def
  by (auto simp: less_Suc_eq numeral_eq_Suc)

lemma digit_value_digit_char [text_simps]: "n < 10 \<Longrightarrow> digit_value (digit_char n) = n"
  unfolding digit_char_def digit_value_def
  by (auto simp: less_Suc_eq numeral_eq_Suc)

lemma digit_not_line_terminator [simp]: "is_digit c \<Longrightarrow> \<not> is_line_terminator c"
  by (auto simp: is_digit_def is_line_terminator_def)

lemma digit_not_hyphen [simp]: "is_digit c \<Longrightarrow> c \<noteq> CHR ''-''"
  by (auto simp: is_digit_def)

lemma hyphen_not_digit [simp]: "\<not> is_digit CHR ''-''"
  by (simp add: is_digit_def)

lemma nat_of_digits_snoc [text_simps]:
  "nat_of_digits (s @ [c]) = 10 * nat_of_digits s + digit_value c"
  by (simp add: nat_of_digits_def)

lemma nat_of_digits_append:
  "nat_of_digits (s @ t) = nat_of_digits s * 10 ^ length t + nat_of_digits t"
proof (induction t rule: rev_induct)
  case Nil
  show ?case by (simp add: nat_of_digits_def)
next
  case (snoc c t)
  then show ?case
    by (simp only: append_assoc [symmetric] nat_of_digits_snoc) (simp add: algebra_simps)
qed

lemma string_of_nat_small [text_simps]: "n < 10 \<Longrightarrow> string_of_nat n = [digit_char n]"
  by (simp add: string_of_nat.simps)

lemma string_of_nat_large [text_simps]:
  "10 \<le> n \<Longrightarrow> string_of_nat n = string_of_nat (n div 10) @ [digit_char (n mod 10)]"
  by (subst string_of_nat.simps) simp

lemma string_of_nat_digits: "\<forall>c \<in> set (string_of_nat n). is_digit c"
proof (induction n rule: string_of_nat.induct)
  case (1 n)
  then show ?case
    by (cases "n < 10") (auto simp: string_of_nat_small string_of_nat_large digit_char_is_digit)
qed

lemma string_of_nat_not_empty [simp]: "string_of_nat n \<noteq> []"
  by (cases "n < 10") (simp_all add: string_of_nat_small string_of_nat_large)

lemma nat_of_digits_string_of_nat [simp]: "nat_of_digits (string_of_nat n) = n"
proof (induction n rule: string_of_nat.induct)
  case (1 n)
  show ?case
  proof (cases "n < 10")
    case True
    then show ?thesis
      by (simp add: string_of_nat_small nat_of_digits_def digit_value_digit_char)
  next
    case False
    with "1.IH" show ?thesis
      by (simp add: string_of_nat_large nat_of_digits_snoc digit_value_digit_char)
  qed
qed

lemma length_string_of_nat_step:
  "10 \<le> n \<Longrightarrow> length (string_of_nat n) = Suc (length (string_of_nat (n div 10)))"
  by (simp add: string_of_nat_large)

lemma length_string_of_nat_le:
  "0 < k \<Longrightarrow> length (string_of_nat n) \<le> k \<longleftrightarrow> n < 10 ^ k"
proof (induction n arbitrary: k rule: string_of_nat.induct)
  case (1 n)
  show ?case
  proof (cases "n < 10")
    case True
    have "10 \<le> (10::nat) ^ k"
      using "1.prems" by (cases k) auto
    with True "1.prems" show ?thesis by (simp add: string_of_nat_small)
  next
    case False
    then obtain k' where k: "k = Suc k'"
      using "1.prems" by (cases k) auto
    show ?thesis
    proof (cases "k' = 0")
      case True
      with False k show ?thesis by (simp add: length_string_of_nat_step)
    next
      case k'0: False
      then have "length (string_of_nat (n div 10)) \<le> k' \<longleftrightarrow> n div 10 < 10 ^ k'"
        using "1.IH" False by simp
      with False k show ?thesis
        by (simp add: length_string_of_nat_step div_less_iff_less_mult mult.commute)
    qed
  qed
qed

lemma length_string_of_nat_eq:
  "0 < k \<Longrightarrow> length (string_of_nat n) = Suc k \<longleftrightarrow> 10 ^ k \<le> n \<and> n < 10 ^ Suc k"
  using length_string_of_nat_le [of k n] length_string_of_nat_le [of "Suc k" n]
  by (simp add: not_less [symmetric]) linarith

subsection \<open>Integer division\<close>

lemma div_succ:
  assumes n: "(1::int) < n"
  shows "(x + 1) div n = x div n + (if (x + 1) mod n = 0 then 1 else 0)"
proof -
  define q r where "q = x div n" and "r = x mod n"
  have x: "x = q * n + r" unfolding q_def r_def by simp
  have r: "0 \<le> r" "r < n" unfolding r_def using n by simp_all
  show ?thesis
  proof (cases "r + 1 = n")
    case True
    then have "x + 1 = (q + 1) * n" using x by (simp add: algebra_simps)
    with n show ?thesis by (simp add: q_def)
  next
    case False
    with r have r1: "r + 1 < n" by simp
    have e: "x + 1 = (r + 1) + q * n" using x by simp
    have "(x + 1) div n = q + (r + 1) div n"
      unfolding e using n by (intro div_mult_self1) simp
    moreover have "(x + 1) mod n = (r + 1) mod n"
      unfolding e using n by (intro mod_mult_self1)
    moreover have "(r + 1) div n = 0" "(r + 1) mod n = r + 1"
      using r r1 by simp_all
    ultimately have "(x + 1) div n = q" "(x + 1) mod n = r + 1"
      by simp_all
    with r show ?thesis by (simp add: q_def)
  qed
qed

lemma mod_shift_multiple: "(y - k * n) mod n = (y :: int) mod n"
  using mod_mult_self1 [of y "- k" n] by simp

end
