(* ===== verification/JSValue.thy ===== *)
theory JSValue
  imports Prelude
begin

text \<open>
  The JavaScript values the client passes around, and the three operations of the
  language that \<open>src/src/bugzilla.js\<close> applies to them: \<open>ToBoolean\<close> behind
  \<open>hoursWorked || 0\<close>, property read (\<open>response[0]\<close>, \<open>.ids\<close>, \<open>.version\<close>)
  and strict-mode property assignment (\<open>params.ids = [bugId]\<close>).
  An object is the list of its own enumerable properties in enumeration order; an
  object literal is built fresh, and an object received from the caller is a value
  the operation returns updated (explicit state passing for the mutation).
  Numbers are rationals (every value the client handles is a finite decimal) with
  \<open>NaN\<close> apart. A \<open>Date\<close> object is its time value, \<open>None\<close> for an invalid
  date; it has no own enumerable properties.
\<close>

datatype jval =
    JUndefined
  | JNull
  | JBool bool
  | JNumber rat
  | JNaN
  | JString string
  | JArray "jval list"
  | JObject "(string \<times> jval) list"
  | JDate "int option"

type_synonym props = "(string \<times> jval) list"

text \<open>
  The failures the client can meet: an exception of the language, a failed HTTP
  exchange (jQuery's \<open>error\<close> callback: status text), an XML-RPC fault or an
  unparsable response (jQuery's \<open>parsererror\<close>).
\<close>

datatype error =
    TypeError string
  | TransportError string
  | RpcFault int string
  | ParseError string

subsection \<open>ToBoolean and the \<open>||\<close> default\<close>

fun truthy :: "jval \<Rightarrow> bool" where
  "truthy JUndefined = False"
| "truthy JNull = False"
| "truthy (JBool b) = b"
| "truthy (JNumber q) = (q \<noteq> 0)"
| "truthy JNaN = False"
| "truthy (JString s) = (s \<noteq> [])"
| "truthy (JArray xs) = True"
| "truthy (JObject ps) = True"
| "truthy (JDate t) = True"

definition js_or :: "jval \<Rightarrow> jval \<Rightarrow> jval" where
  "js_or a b = (if truthy a then a else b)"

subsection \<open>Objects as property lists\<close>

text \<open>
  \<open>[[Set]]\<close> on an ordinary object: an existing own property keeps its position and
  takes the new value; a new string-keyed property goes last in enumeration order.
\<close>

fun set_prop :: "props \<Rightarrow> string \<Rightarrow> jval \<Rightarrow> props" where
  "set_prop [] k v = [(k, v)]"
| "set_prop ((k', v') # ps) k v =
     (if k' = k then (k, v) # ps else (k', v') # set_prop ps k v)"

definition wf_props :: "props \<Rightarrow> bool" where
  "wf_props ps \<longleftrightarrow> distinct (map fst ps)"

text \<open>A property key that is an array index: the canonical decimal text of a number below \<open>2^32 - 1\<close>.\<close>

definition array_index :: "string \<Rightarrow> nat option" where
  "array_index k =
     (if k \<noteq> [] \<and> list_all is_digit k \<and> string_of_nat (nat_of_digits k) = k
         \<and> nat_of_digits k < 2 ^ 32 - 1
      then Some (nat_of_digits k) else None)"

text \<open>
  Property read \<open>v[k]\<close> / \<open>v.k\<close>: \<open>undefined\<close> and \<open>null\<close> throw a
  \<open>TypeError\<close>; an array and a string expose their indices and \<open>length\<close>; an
  absent property reads as \<open>undefined\<close>. (Inherited methods such as \<open>toString\<close>
  are not data and are not modelled: the client reads only \<open>0\<close>, \<open>ids\<close> and
  \<open>version\<close>.)
\<close>

fun get_member :: "jval \<Rightarrow> string \<Rightarrow> error + jval" where
  "get_member JUndefined k = Inl (TypeError ''Cannot read properties of undefined'')"
| "get_member JNull k = Inl (TypeError ''Cannot read properties of null'')"
| "get_member (JObject ps) k = Inr (case map_of ps k of None \<Rightarrow> JUndefined | Some v \<Rightarrow> v)"
| "get_member (JArray xs) k =
     Inr (case array_index k of
            Some i \<Rightarrow> if i < length xs then xs ! i else JUndefined
          | None \<Rightarrow> if k = ''length'' then JNumber (of_nat (length xs)) else JUndefined)"
| "get_member (JString s) k =
     Inr (case array_index k of
            Some i \<Rightarrow> if i < length s then JString [s ! i] else JUndefined
          | None \<Rightarrow> if k = ''length'' then JNumber (of_nat (length s)) else JUndefined)"
| "get_member v k = Inr JUndefined"

text \<open>\<open>v[n]\<close> with a number literal: the key is the number's text.\<close>

definition get_index :: "jval \<Rightarrow> nat \<Rightarrow> error + jval" where
  "get_index v n = get_member v (string_of_nat n)"

text \<open>
  Strict-mode assignment \<open>v.k = x\<close>: \<open>undefined\<close>, \<open>null\<close> and primitives throw
  a \<open>TypeError\<close> (the code runs under \<open>"use strict"\<close>). On an array or a
  \<open>Date\<close> a named property is stored beside the elements or the time value; the
  model keeps those only, which is all that an XML-RPC \<open>array\<close> or
  \<open>dateTime.iso8601\<close> transmits.
\<close>

fun set_member :: "jval \<Rightarrow> string \<Rightarrow> jval \<Rightarrow> error + jval" where
  "set_member (JObject ps) k x = Inr (JObject (set_prop ps k x))"
| "set_member (JArray xs) k x = Inr (JArray xs)"
| "set_member (JDate t) k x = Inr (JDate t)"
| "set_member JUndefined k x = Inl (TypeError ''Cannot set properties of undefined'')"
| "set_member JNull k x = Inl (TypeError ''Cannot set properties of null'')"
| "set_member v k x = Inl (TypeError ''Cannot create property on primitive'')"

subsection \<open>Lemmas\<close>

lemma js_or_truthy [simp]: "truthy a \<Longrightarrow> js_or a b = a"
  by (simp add: js_or_def)

lemma js_or_falsy [simp]: "\<not> truthy a \<Longrightarrow> js_or a b = b"
  by (simp add: js_or_def)

lemma map_of_set_prop [simp]: "map_of (set_prop ps k v) = (map_of ps)(k \<mapsto> v)"
  by (induction ps) (auto simp: fun_eq_iff)

lemma keys_set_prop: "map fst (set_prop ps k v) =
    (if k \<in> set (map fst ps) then map fst ps else map fst ps @ [k])"
  by (induction ps k v rule: set_prop.induct) auto

lemma set_prop_absent: "k \<notin> set (map fst ps) \<Longrightarrow> set_prop ps k v = ps @ [(k, v)]"
  by (induction ps k v rule: set_prop.induct) auto

lemma wf_set_prop: "wf_props ps \<Longrightarrow> wf_props (set_prop ps k v)"
  by (simp add: wf_props_def keys_set_prop)

lemma set_prop_set_prop [simp]: "set_prop (set_prop ps k v) k w = set_prop ps k w"
  by (induction ps) auto

lemma array_index_string_of_nat [simp]:
  "n < 2 ^ 32 - 1 \<Longrightarrow> array_index (string_of_nat n) = Some n"
  by (simp add: array_index_def list_all_iff string_of_nat_digits)

lemma get_index_array:
  "n < 2 ^ 32 - 1 \<Longrightarrow> get_index (JArray xs) n = Inr (if n < length xs then xs ! n else JUndefined)"
  by (simp add: get_index_def)

lemma get_index_0_array [simp]:
  "get_index (JArray (x # xs)) 0 = Inr x" "get_index (JArray []) 0 = Inr JUndefined"
  by (simp_all add: get_index_array)

end
