(* ===== verification/XmlRpc.thy ===== *)
theory XmlRpc
  imports JSValue
begin

text \<open>
  The collaborator the client configures and calls: \<open>$.xmlrpc(settings)\<close> of the
  jquery-xmlrpc plugin over jQuery's \<open>$.ajax\<close>. It is not part of the repository,
  so it is modelled from its documented contract: the settings name a URL, a method
  name, a parameter list (default \<open>[]\<close>) and an optional \<open>dataFilter\<close>; the
  request is serialised at call time and POSTed; the raw response body passes through
  the \<open>dataFilter\<close> before the XML-RPC response is decoded; a transport failure,
  an XML-RPC fault and an unparsable body reject the returned promise.

  The server and the XML layer form the interface \<open>transport\<close>: any function from
  a request to a body (or a failure) and any decoder. Every lemma of the client holds
  for every transport.

  A pending computation (jQuery promise) is modelled by what it does when it runs:
  the list of requests it issues, in order, and how it settles (\<open>Inr\<close> value or
  \<open>Inl\<close> error). \<open>then_call\<close> is Promises/A+ \<open>then\<close> with a success handler
  only (jQuery 3): the handler runs after the first computation resolves, an
  exception thrown in it rejects the result, and a rejection skips it.
\<close>

record rpc_request =
  rq_url :: string
  rq_method :: string
  rq_params :: "jval list"
  rq_filter :: "(string \<Rightarrow> string) option"

record transport =
  post :: "string \<Rightarrow> string \<Rightarrow> jval list \<Rightarrow> error + string"
  decode :: "string \<Rightarrow> error + jval"

type_synonym 'a call = "rpc_request list \<times> (error + 'a)"

definition xmlrpc :: "transport \<Rightarrow> rpc_request \<Rightarrow> error + jval" where
  "xmlrpc t r =
     (case post t (rq_url r) (rq_method r) (rq_params r) of
        Inl e \<Rightarrow> Inl e
      | Inr body \<Rightarrow> decode t (case rq_filter r of None \<Rightarrow> body | Some f \<Rightarrow> f body))"

definition issue :: "transport \<Rightarrow> rpc_request \<Rightarrow> jval call" where
  "issue t r = ([r], xmlrpc t r)"

definition settle :: "error + 'a \<Rightarrow> 'a call" where
  "settle r = ([], r)"

definition then_call :: "'a call \<Rightarrow> ('a \<Rightarrow> 'b call) \<Rightarrow> 'b call" where
  "then_call p f =
     (case snd p of
        Inl e \<Rightarrow> (fst p, Inl e)
      | Inr v \<Rightarrow> (fst p @ fst (f v), snd (f v)))"

abbreviation requests :: "'a call \<Rightarrow> rpc_request list" where
  "requests p \<equiv> fst p"

abbreviation outcome :: "'a call \<Rightarrow> error + 'a" where
  "outcome p \<equiv> snd p"

definition request :: "string \<Rightarrow> string \<Rightarrow> jval list \<Rightarrow> rpc_request" where
  "request u m ps = \<lparr>rq_url = u, rq_method = m, rq_params = ps, rq_filter = None\<rparr>"

lemma request_fields [simp]:
  "rq_url (request u m ps) = u" "rq_method (request u m ps) = m"
  "rq_params (request u m ps) = ps" "rq_filter (request u m ps) = None"
  by (simp_all add: request_def)

subsection \<open>The promise laws\<close>

lemma then_settle_left [simp]: "then_call (settle (Inr v)) f = f v"
  by (simp add: then_call_def settle_def)

lemma then_settle_reject [simp]: "then_call (settle (Inl e)) f = settle (Inl e)"
  by (simp add: then_call_def settle_def)

lemma then_settle_right [simp]: "then_call p (\<lambda>v. settle (Inr v)) = p"
  by (cases p) (simp add: then_call_def settle_def split: sum.split)

lemma then_call_assoc:
  "then_call (then_call p f) g = then_call p (\<lambda>v. then_call (f v) g)"
  by (cases p) (simp add: then_call_def split: sum.split prod.split)

lemma then_issue_resolved:
  "xmlrpc t r = Inr v \<Longrightarrow> then_call (issue t r) f = (r # requests (f v), outcome (f v))"
  by (simp add: then_call_def issue_def)

lemma then_issue_rejected:
  "xmlrpc t r = Inl e \<Longrightarrow> then_call (issue t r) f = ([r], Inl e)"
  by (simp add: then_call_def issue_def)

lemma requests_then_call_prefix: "prefix (requests p) (requests (then_call p f))"
  by (simp add: then_call_def split: sum.split)

lemma xmlrpc_unfiltered:
  "rq_filter r = None \<Longrightarrow>
   xmlrpc t r = (case post t (rq_url r) (rq_method r) (rq_params r) of
                   Inl e \<Rightarrow> Inl e | Inr body \<Rightarrow> decode t body)"
  by (simp add: xmlrpc_def split: sum.split)

lemmas call_simps = issue_def settle_def then_call_def xmlrpc_def request_def

end
