(* ===== verification/ResponseFilter.thy ===== *)
theory ResponseFilter
  imports Prelude
begin

text \<open>
  The \<open>dataFilter\<close> of the \<open>Product.get\<close> call in \<open>getProducts\<close>
  (\<open>src/src/bugzilla.js\<close>, lines 117--120):
  \<^verbatim>\<open>data.replace(/<\/methodR.*/, '</methodResponse>')\<close>.
  The regular expression has no \<open>g\<close> flag, so only the leftmost match is replaced;
  \<open>.*\<close> is greedy and \<open>.\<close> matches every character but a line terminator, so
  the match runs from the first \<open></methodR\<close> to the end of its line.
  \<open>fix_methodResponse\<close> performs exactly that search and replacement.
  The lemmas characterise its result by the leftmost-match decomposition of the
  input (an abstract specification of the replacement), and show that it leaves a
  body without the tag alone, leaves a well-formed body alone, and is idempotent.
\<close>

fun fix_methodResponse :: "string \<Rightarrow> string" where
  "fix_methodResponse [] = []"
| "fix_methodResponse (c # cs) =
     (if prefix ''</methodR'' (c # cs)
      then ''</methodResponse>'' @ dropWhile (\<lambda>x. \<not> is_line_terminator x) (drop 9 (c # cs))
      else c # fix_methodResponse cs)"

subsection \<open>Occurrences of the tag\<close>

lemma methodR_length: "length ''</methodR'' = 9"
  by simp

lemma prefix_tag_shift:
  assumes "prefix ''</methodR'' (xs @ rest)" and "xs \<noteq> []"
  shows "sublist ''</methodR'' (xs @ take 8 rest)"
proof -
  have "take 9 (xs @ rest) = take 9 (xs @ take 8 rest)"
    using assms(2) by (cases xs) (simp_all add: min_def)
  moreover have "''</methodR'' = take 9 (xs @ rest)"
    using assms(1) by (metis methodR_length prefix_def append_eq_conv_conj)
  ultimately have "prefix ''</methodR'' (xs @ take 8 rest)"
    by (metis take_is_prefix)
  then show ?thesis by (rule prefix_imp_sublist)
qed

lemma fix_no_tag [simp]: "\<not> sublist ''</methodR'' s \<Longrightarrow> fix_methodResponse s = s"
  by (induction s) (auto simp: sublist_Cons_right)

lemma fix_skip_prefix:
  "\<not> sublist ''</methodR'' (p @ take 8 rest) \<Longrightarrow>
   fix_methodResponse (p @ rest) = p @ fix_methodResponse rest"
proof (induction p)
  case Nil
  then show ?case by simp
next
  case (Cons c p)
  have ne: "c # p \<noteq> []" by simp
  have np: "\<not> prefix ''</methodR'' (c # p @ rest)"
    using Cons.prems prefix_tag_shift [of "c # p" rest] ne unfolding append_Cons by blast
  have "\<not> sublist ''</methodR'' (p @ take 8 rest)"
    using Cons.prems by (auto simp: sublist_Cons_right)
  then have "fix_methodResponse (p @ rest) = p @ fix_methodResponse rest"
    by (rule Cons.IH)
  moreover have "fix_methodResponse (c # p @ rest) = c # fix_methodResponse (p @ rest)"
    by (simp only: fix_methodResponse.simps(2) np if_False)
  ultimately show ?case by simp
qed

lemma leftmost_tag:
  "sublist ''</methodR'' s \<Longrightarrow>
   \<exists>p rest. s = p @ rest \<and> prefix ''</methodR'' rest \<and> \<not> sublist ''</methodR'' (p @ ''</method'')"
proof (induction s)
  case Nil
  then show ?case by simp
next
  case (Cons c cs)
  show ?case
  proof (cases "prefix ''</methodR'' (c # cs)")
    case True
    have nsub: "\<not> sublist ''</methodR'' ''</method''"
      by (auto dest: sublist_length_le)
    show ?thesis
      by (rule exI [of _ "[]"], rule exI [of _ "c # cs"])
        (use True nsub in \<open>simp only: append_Nil simp_thms\<close>)
  next
    case False
    have "sublist ''</methodR'' cs"
      using Cons.prems False unfolding sublist_Cons_right by blast
    with Cons.IH obtain p rest where
      cs: "cs = p @ rest" and pre: "prefix ''</methodR'' rest"
      and first: "\<not> sublist ''</methodR'' (p @ ''</method'')"
      by blast
    have "prefix (c # p @ ''</method'') (c # cs)"
      using cs pre by (auto simp: prefix_def)
    then have "\<not> prefix ''</methodR'' (c # p @ ''</method'')"
      using False prefix_order.trans by blast
    with first have "\<not> sublist ''</methodR'' ((c # p) @ ''</method'')"
      by (simp add: sublist_Cons_right)
    moreover have "c # cs = (c # p) @ rest"
      using cs by simp
    ultimately show ?thesis using pre by blast
  qed
qed

lemma fix_at_tag:
  "prefix ''</methodR'' rest \<Longrightarrow>
   fix_methodResponse rest =
     ''</methodResponse>'' @ dropWhile (\<lambda>x. \<not> is_line_terminator x) (drop 9 rest)"
  by (cases rest) auto

lemma take8_tag: "prefix ''</methodR'' rest \<Longrightarrow> take 8 rest = ''</method''"
  by (auto simp: prefix_def)

lemma rest_of_line:
  "xs = takeWhile (\<lambda>x. \<not> is_line_terminator x) xs @ dropWhile (\<lambda>x. \<not> is_line_terminator x) xs
   \<and> (\<forall>c \<in> set (takeWhile (\<lambda>x. \<not> is_line_terminator x) xs). \<not> is_line_terminator c)
   \<and> (dropWhile (\<lambda>x. \<not> is_line_terminator x) xs = []
      \<or> is_line_terminator (hd (dropWhile (\<lambda>x. \<not> is_line_terminator x) xs)))"
proof (intro conjI)
  show "\<forall>c \<in> set (takeWhile (\<lambda>x. \<not> is_line_terminator x) xs). \<not> is_line_terminator c"
    by (auto dest: set_takeWhileD)
  show "dropWhile (\<lambda>x. \<not> is_line_terminator x) xs = []
      \<or> is_line_terminator (hd (dropWhile (\<lambda>x. \<not> is_line_terminator x) xs))"
    using hd_dropWhile [of "\<lambda>x. \<not> is_line_terminator x" xs] by auto
qed simp

lemma fix_tag_line:
  "fix_methodResponse (''</methodResponse>'' @ q) =
     ''</methodResponse>'' @ dropWhile (\<lambda>x. \<not> is_line_terminator x) q"
  by (simp add: is_line_terminator_def)

lemma fix_from_leftmost:
  assumes "prefix ''</methodR'' rest" and "\<not> sublist ''</methodR'' (p @ ''</method'')"
  shows "fix_methodResponse (p @ rest) =
           p @ ''</methodResponse>'' @ dropWhile (\<lambda>x. \<not> is_line_terminator x) (drop 9 rest)"
  using assms fix_skip_prefix [of p rest] take8_tag [OF assms(1)] fix_at_tag [OF assms(1)]
  by simp

lemma tag_split: "prefix ''</methodR'' rest \<Longrightarrow> rest = ''</methodR'' @ drop 9 rest"
  by (auto simp: prefix_def)

subsection \<open>Properties of the filter\<close>

text \<open>
  C7: the filter replaces the leftmost \<open></methodR\<close> and the rest of its line, and
  only that: the body splits into a prefix without the tag, the tag, the rest of the
  line and the remainder from the next line terminator on, and the result is the
  prefix, \<open></methodResponse>\<close> and the remainder.
\<close>

theorem fix_methodResponse_leftmost:
  assumes "sublist ''</methodR'' s"
  shows "\<exists>p m q. s = p @ ''</methodR'' @ m @ q
           \<and> \<not> sublist ''</methodR'' (p @ ''</method'')
           \<and> (\<forall>c \<in> set m. \<not> is_line_terminator c)
           \<and> (q = [] \<or> is_line_terminator (hd q))
           \<and> fix_methodResponse s = p @ ''</methodResponse>'' @ q"
proof -
  obtain p rest where s: "s = p @ rest" and pre: "prefix ''</methodR'' rest"
    and first: "\<not> sublist ''</methodR'' (p @ ''</method'')"
    using leftmost_tag [OF assms] by blast
  define m where "m = takeWhile (\<lambda>x. \<not> is_line_terminator x) (drop 9 rest)"
  define q where "q = dropWhile (\<lambda>x. \<not> is_line_terminator x) (drop 9 rest)"
  have line: "drop 9 rest = m @ q" "\<forall>c \<in> set m. \<not> is_line_terminator c"
    "q = [] \<or> is_line_terminator (hd q)"
    using rest_of_line [of "drop 9 rest"] unfolding m_def q_def by blast+
  have "s = p @ ''</methodR'' @ m @ q"
    using s tag_split [OF pre] line(1) by simp
  moreover have "fix_methodResponse s = p @ ''</methodResponse>'' @ q"
    using s fix_from_leftmost [OF pre first] unfolding q_def by simp
  ultimately show ?thesis using first line(2,3) by blast
qed

text \<open>
  C8: applying the filter twice gives the same body as applying it once, so a body
  the filter has repaired is never damaged further.
\<close>

theorem fix_methodResponse_idempotent:
  "fix_methodResponse (fix_methodResponse s) = fix_methodResponse s"
proof (cases "sublist ''</methodR'' s")
  case False
  then show ?thesis by simp
next
  case True
  obtain p rest where s: "s = p @ rest" and pre: "prefix ''</methodR'' rest"
    and first: "\<not> sublist ''</methodR'' (p @ ''</method'')"
    using leftmost_tag [OF True] by blast
  define q where "q = dropWhile (\<lambda>x. \<not> is_line_terminator x) (drop 9 rest)"
  have once: "fix_methodResponse s = p @ ''</methodResponse>'' @ q"
    using s fix_from_leftmost [OF pre first] unfolding q_def by simp
  have pre2: "prefix ''</methodR'' (''</methodResponse>'' @ q)"
    by (simp add: prefix_def)
  have "fix_methodResponse (p @ ''</methodResponse>'' @ q) =
          p @ ''</methodResponse>'' @ dropWhile (\<lambda>x. \<not> is_line_terminator x) q"
    using fix_from_leftmost [OF pre2 first] by (simp add: is_line_terminator_def)
  also have "dropWhile (\<lambda>x. \<not> is_line_terminator x) q = q"
    unfolding q_def by (rule dropWhile_idem)
  finally show ?thesis using once by simp
qed

text \<open>
  C9: a well-formed body, whose first \<open></methodR\<close> is the final
  \<open></methodResponse>\<close>, passes through the filter unchanged.
\<close>

theorem fix_methodResponse_well_formed:
  assumes "\<not> sublist ''</methodR'' (p @ ''</method'')"
  shows "fix_methodResponse (p @ ''</methodResponse>'') = p @ ''</methodResponse>''"
proof -
  have pre: "prefix ''</methodR'' ''</methodResponse>''"
    by (simp add: prefix_def)
  show ?thesis
    using fix_from_leftmost [OF pre assms] by (simp add: is_line_terminator_def)
qed

text \<open>
  C10: on a body with the tag and no line terminator the result ends with
  \<open></methodResponse>\<close> and nothing after it (the repair the spec describes).
\<close>

theorem fix_methodResponse_single_line:
  assumes "sublist ''</methodR'' s" and "\<forall>c \<in> set s. \<not> is_line_terminator c"
  shows "suffix ''</methodResponse>'' (fix_methodResponse s)"
proof -
  obtain p rest where s: "s = p @ rest" and pre: "prefix ''</methodR'' rest"
    and first: "\<not> sublist ''</methodR'' (p @ ''</method'')"
    using leftmost_tag [OF assms(1)] by blast
  have "\<forall>c \<in> set (drop 9 rest). \<not> is_line_terminator c"
    using assms(2) s by (auto dest: in_set_dropD)
  then have "dropWhile (\<lambda>x. \<not> is_line_terminator x) (drop 9 rest) = []"
    by simp
  then show ?thesis
    using s fix_from_leftmost [OF pre first] by (simp add: suffix_def)
qed

subsection \<open>Witnesses\<close>

theorem fix_methodResponse_leftmost_witness:
  "sublist ''</methodR'' ''<a/></methodRes junk''
   \<and> (\<exists>p m q. ''<a/></methodRes junk'' = p @ ''</methodR'' @ m @ q
        \<and> \<not> sublist ''</methodR'' (p @ ''</method'')
        \<and> list_all (\<lambda>c. \<not> is_line_terminator c) m
        \<and> (q = [] \<or> is_line_terminator (hd q))
        \<and> fix_methodResponse ''<a/></methodRes junk'' = p @ ''</methodResponse>'' @ q)"
proof -
  have h: "sublist ''</methodR'' ''<a/></methodRes junk''" by code_simp
  show ?thesis using h fix_methodResponse_leftmost [OF h] by (simp add: list_all_iff)
qed

theorem fix_methodResponse_well_formed_witness:
  "\<not> sublist ''</methodR'' (''<methodResponse><params/>'' @ ''</method'')
   \<and> fix_methodResponse (''<methodResponse><params/>'' @ ''</methodResponse>'') =
       ''<methodResponse><params/>'' @ ''</methodResponse>''"
proof -
  have h: "\<not> sublist ''</methodR'' (''<methodResponse><params/>'' @ ''</method'')" by code_simp
  show ?thesis using h fix_methodResponse_well_formed [OF h] by blast
qed

theorem fix_methodResponse_single_line_witness:
  "sublist ''</methodR'' ''<r/></methodResp''
   \<and> list_all (\<lambda>c. \<not> is_line_terminator c) ''<r/></methodResp''
   \<and> suffix ''</methodResponse>'' (fix_methodResponse ''<r/></methodResp'')"
proof -
  have h1: "sublist ''</methodR'' ''<r/></methodResp''" by code_simp
  have h2: "\<forall>c \<in> set ''<r/></methodResp''. \<not> is_line_terminator c"
    by (simp add: is_line_terminator_def)
  show ?thesis using h1 h2 fix_methodResponse_single_line [OF h1 h2] by (simp add: list_all_iff)
qed

end
