(* ===== verification/Bugzilla.thy ===== *)
theory Bugzilla
  imports XmlRpc ResponseFilter
begin

text \<open>
  The client class of \<open>src/src/bugzilla.js\<close>: the constructor \<open>Bugzilla\<close> and the
  six methods of its prototype. Each method builds the settings of one
  \<open>$.xmlrpc\<close> call (\<open>XmlRpc.request\<close>) and returns the promise
  (\<open>XmlRpc.issue\<close>); \<open>getProducts\<close> chains a second call on the first with
  \<open>then_call\<close>; \<open>updateBug\<close> first assigns \<open>params.ids\<close>, which may throw and
  which the caller observes, so it returns the caller's object as updated;
  \<open>getVersion\<close> returns nothing and only writes to the console, so it returns the
  console lines it writes. All methods are stated for an arbitrary transport.
\<close>

record bugzilla =
  url :: string

definition Bugzilla :: bugzilla where
  "Bugzilla = \<lparr>url = ''https://bugzilla.dtec.com/xmlrpc.cgi''\<rparr>"

datatype console_line = LogValue jval | LogArguments error | Uncaught error

text \<open>\<open>response[0].name\<close>: two property reads, either may throw.\<close>

definition get_index_member :: "jval \<Rightarrow> nat \<Rightarrow> string \<Rightarrow> error + jval" where
  "get_index_member v n k = (case get_index v n of Inl e \<Rightarrow> Inl e | Inr x \<Rightarrow> get_member x k)"

definition getVersion :: "bugzilla \<Rightarrow> transport \<Rightarrow> rpc_request list \<times> console_line list" where
  "getVersion b t =
     (let r = request (url b) ''Bugzilla.version'' []
      in ([r], case xmlrpc t r of
                 Inr response \<Rightarrow>
                   (case get_index_member response 0 ''version'' of
                      Inr v \<Rightarrow> [LogValue v]
                    | Inl e \<Rightarrow> [Uncaught e])
               | Inl e \<Rightarrow> [LogArguments e]))"

definition getBug :: "bugzilla \<Rightarrow> transport \<Rightarrow> jval \<Rightarrow> jval call" where
  "getBug b t bugId = issue t (request (url b) ''Bug.get'' [JObject [(''ids'', JArray [bugId])]])"

definition addComment :: "bugzilla \<Rightarrow> transport \<Rightarrow> jval \<Rightarrow> jval \<Rightarrow> jval \<Rightarrow> jval call" where
  "addComment b t bugId comment hoursWorked =
     (let hoursWorked = js_or hoursWorked (JNumber 0)
      in issue t (request (url b) ''Bug.add_comment''
                    [JObject [(''id'', bugId), (''comment'', comment), (''work_time'', hoursWorked)]]))"

definition updateBug :: "bugzilla \<Rightarrow> transport \<Rightarrow> jval \<Rightarrow> jval \<Rightarrow> error + (jval \<times> jval call)" where
  "updateBug b t bugId params =
     (case set_member params ''ids'' (JArray [bugId]) of
        Inl e \<Rightarrow> Inl e
      | Inr params \<Rightarrow> Inr (params, issue t (request (url b) ''Bug.update'' [params])))"

definition searchBugs :: "bugzilla \<Rightarrow> transport \<Rightarrow> jval \<Rightarrow> jval call" where
  "searchBugs b t searchCriteria = issue t (request (url b) ''Bug.search'' [searchCriteria])"

text \<open>
  In the handler of \<open>then\<close>, \<open>this\<close> is not the client: jQuery calls it with the
  settings object of the first \<open>$.ajax\<close> call as context, whose \<open>url\<close> is the
  first request's URL. The second request therefore takes \<open>rq_url\<close> of the first.
\<close>

definition products_request :: "string \<Rightarrow> jval \<Rightarrow> rpc_request" where
  "products_request u ids =
     (request u ''Product.get'' [JObject [(''ids'', ids)]])\<lparr>rq_filter := Some fix_methodResponse\<rparr>"

definition getProducts :: "bugzilla \<Rightarrow> transport \<Rightarrow> jval call" where
  "getProducts b t =
     (let r1 = request (url b) ''Product.get_enterable_products'' []
      in then_call (issue t r1)
           (\<lambda>response. case get_index_member response 0 ''ids'' of
                          Inl e \<Rightarrow> settle (Inl e)
                        | Inr ids \<Rightarrow> issue t (products_request (rq_url r1) ids)))"

subsection \<open>The operations as one interface\<close>

datatype client_op =
    GetVersion
  | GetBug jval
  | AddComment jval jval jval
  | UpdateBug jval jval
  | SearchBugs jval
  | GetProducts

fun op_requests :: "bugzilla \<Rightarrow> transport \<Rightarrow> client_op \<Rightarrow> rpc_request list" where
  "op_requests b t GetVersion = fst (getVersion b t)"
| "op_requests b t (GetBug i) = requests (getBug b t i)"
| "op_requests b t (AddComment i c h) = requests (addComment b t i c h)"
| "op_requests b t (UpdateBug i p) =
     (case updateBug b t i p of Inl e \<Rightarrow> [] | Inr (p', c) \<Rightarrow> requests c)"
| "op_requests b t (SearchBugs q) = requests (searchBugs b t q)"
| "op_requests b t GetProducts = requests (getProducts b t)"

definition remote_methods :: "string set" where
  "remote_methods = {''Bugzilla.version'', ''Bug.get'', ''Bug.add_comment'', ''Bug.update'',
     ''Bug.search'', ''Product.get_enterable_products'', ''Product.get''}"

subsection \<open>Lemmas\<close>

lemma get_index_member_array:
  "get_index_member (JArray (JObject ps # xs)) 0 k =
     Inr (case map_of ps k of None \<Rightarrow> JUndefined | Some v \<Rightarrow> v)"
  by (simp add: get_index_member_def)

lemma get_index_member_undefined:
  "get_index_member JUndefined n k = Inl (TypeError ''Cannot read properties of undefined'')"
  "get_index_member (JArray []) 0 k = Inl (TypeError ''Cannot read properties of undefined'')"
  by (simp_all add: get_index_member_def get_index_def)

lemma products_request_fields [simp]:
  "rq_url (products_request u ids) = u" "rq_method (products_request u ids) = ''Product.get''"
  "rq_params (products_request u ids) = [JObject [(''ids'', ids)]]"
  "rq_filter (products_request u ids) = Some fix_methodResponse"
  by (simp_all add: products_request_def)

lemmas getProducts_steps = getProducts_def [unfolded Let_def request_fields]

lemma xmlrpc_products_request:
  "xmlrpc t (products_request u ids) =
     (case post t u ''Product.get'' [JObject [(''ids'', ids)]] of
        Inl e \<Rightarrow> Inl e | Inr body \<Rightarrow> decode t (fix_methodResponse body))"
  by (simp add: xmlrpc_def split: sum.split)

subsection \<open>Properties of the client\<close>

text \<open>
  C1: \<open>getProducts\<close> issues \<open>Product.get_enterable_products\<close>, and once it
  resolves with a response whose element 0 has \<open>ids\<close>, issues \<open>Product.get\<close>
  for exactly those ids, to the same URL and with the repair filter; the combined
  promise settles as the second call does.
\<close>

theorem getProducts_chain:
  assumes "xmlrpc t (request (url b) ''Product.get_enterable_products'' []) = Inr response"
    and "get_index_member response 0 ''ids'' = Inr ids"
  shows "getProducts b t =
     ([request (url b) ''Product.get_enterable_products'' [], products_request (url b) ids],
      xmlrpc t (products_request (url b) ids))"
  using assms by (simp add: getProducts_steps then_issue_resolved) (simp add: issue_def)

text \<open>
  C2: when the first call of \<open>getProducts\<close> is rejected, the second call is never
  issued and the combined promise is rejected with the same error.
\<close>

theorem getProducts_first_rejected:
  assumes "xmlrpc t (request (url b) ''Product.get_enterable_products'' []) = Inl e"
  shows "getProducts b t = ([request (url b) ''Product.get_enterable_products'' []], Inl e)"
  using assms by (simp add: getProducts_steps then_issue_rejected)

text \<open>
  C14: when the first call resolves with a response from which \<open>response[0].ids\<close>
  cannot be read (\<open>undefined\<close>, \<open>null\<close>, an empty array), the handler throws, no
  second call is issued, and the combined promise is rejected with that error.
\<close>

theorem getProducts_bad_response:
  assumes "xmlrpc t (request (url b) ''Product.get_enterable_products'' []) = Inr response"
    and "get_index_member response 0 ''ids'' = Inl e"
  shows "getProducts b t = ([request (url b) ''Product.get_enterable_products'' []], Inl e)"
  using assms by (simp add: getProducts_steps then_issue_resolved settle_def)

text \<open>
  C15: \<open>getBug\<close> issues exactly one call, \<open>Bug.get\<close> with \<open>{ids: [bugId]}\<close>,
  without a response filter, and settles with the transport's decoded response unchanged.
\<close>

theorem getBug_single_call:
  assumes "post t (url b) ''Bug.get'' [JObject [(''ids'', JArray [bugId])]] = Inr body"
  shows "getBug b t bugId =
     ([request (url b) ''Bug.get'' [JObject [(''ids'', JArray [bugId])]]], decode t body)"
  using assms by (simp add: getBug_def issue_def xmlrpc_def)

text \<open>
  C16: \<open>addComment\<close> sends \<open>work_time\<close> equal to \<open>hoursWorked\<close> when that is
  truthy and \<open>0\<close> otherwise (omitted, \<open>null\<close>, \<open>0\<close>, \<open>NaN\<close>, \<open>false\<close>,
  the empty string), in one \<open>Bug.add_comment\<close> call.
\<close>

theorem addComment_work_time:
  "requests (addComment b t bugId comment hoursWorked) =
     [request (url b) ''Bug.add_comment''
        [JObject [(''id'', bugId), (''comment'', comment),
                  (''work_time'', if truthy hoursWorked then hoursWorked else JNumber 0)]]]"
  by (simp add: addComment_def issue_def js_or_def Let_def)

text \<open>
  C17: \<open>updateBug\<close> on an object sets its \<open>ids\<close> to \<open>[bugId]\<close> in place (the
  property keeps its position, or is appended when new), keeps the object's keys
  distinct, hands the caller the mutated object, and sends that same object as the
  single parameter of one \<open>Bug.update\<close> call.
\<close>

theorem updateBug_object:
  assumes "updateBug b t bugId (JObject ps) = Inr (params, c)"
  shows "\<exists>ps'. params = JObject ps'
           \<and> map_of ps' = (map_of ps)(''ids'' \<mapsto> JArray [bugId])
           \<and> map fst ps' = (if ''ids'' \<in> set (map fst ps) then map fst ps else map fst ps @ [''ids''])
           \<and> (wf_props ps \<longrightarrow> wf_props ps')
           \<and> c = issue t (request (url b) ''Bug.update'' [params])"
  using assms by (auto simp: updateBug_def keys_set_prop wf_set_prop) force

text \<open>
  C18: \<open>updateBug\<close> with \<open>undefined\<close>, \<open>null\<close> or a primitive as \<open>params\<close>
  (anything but an object, an array or a \<open>Date\<close>) throws a \<open>TypeError\<close>
  synchronously (strict mode) and issues no call.
\<close>

theorem updateBug_non_object:
  assumes "\<forall>ps. params \<noteq> JObject ps" and "\<forall>xs. params \<noteq> JArray xs"
    and "\<forall>d. params \<noteq> JDate d"
  shows "\<exists>msg. updateBug b t bugId params = Inl (TypeError msg)"
  using assms by (cases params) (auto simp: updateBug_def)

text \<open>
  C19: \<open>getVersion\<close> issues one \<open>Bugzilla.version\<close> call and writes exactly one
  console line: the version, the failure's arguments when the call is rejected, or an
  uncaught exception when the response has no element 0; nothing reaches the caller.
\<close>

theorem getVersion_logs:
  "fst (getVersion b t) = [request (url b) ''Bugzilla.version'' []]
   \<and> (\<exists>line. snd (getVersion b t) = [line])
   \<and> (\<forall>e. xmlrpc t (request (url b) ''Bugzilla.version'' []) = Inl e \<longrightarrow>
          snd (getVersion b t) = [LogArguments e])"
  by (simp add: getVersion_def Let_def split: sum.split)

text \<open>
  C20: every call any operation of the client issues goes to the client's URL and
  names one of the seven remote methods of the interface.
\<close>

theorem client_requests_safe:
  assumes "r \<in> set (op_requests b t op)"
  shows "rq_url r = url b \<and> rq_method r \<in> remote_methods"
proof (cases op)
  case GetProducts
  then show ?thesis
    using assms
    by (auto simp: getProducts_steps then_call_def issue_def settle_def remote_methods_def
        split: sum.splits)
qed (use assms in \<open>auto simp: getVersion_def getBug_def addComment_def updateBug_def
      searchBugs_def issue_def remote_methods_def Let_def split: sum.splits\<close>)

subsection \<open>Witnesses\<close>

theorem getProducts_chain_witness:
  "xmlrpc \<lparr>post = \<lambda>u m ps. Inr [], decode = \<lambda>s. Inr (JArray [JObject [(''ids'', JArray [JNumber 1, JNumber 2])]])\<rparr> (request (url Bugzilla) ''Product.get_enterable_products'' []) =
     Inr (JArray [JObject [(''ids'', JArray [JNumber 1, JNumber 2])]])
   \<and> get_index_member (JArray [JObject [(''ids'', JArray [JNumber 1, JNumber 2])]]) 0 ''ids'' =
     Inr (JArray [JNumber 1, JNumber 2])
   \<and> getProducts Bugzilla \<lparr>post = \<lambda>u m ps. Inr [], decode = \<lambda>s. Inr (JArray [JObject [(''ids'', JArray [JNumber 1, JNumber 2])]])\<rparr> =
     ([request (url Bugzilla) ''Product.get_enterable_products'' [],
       products_request (url Bugzilla) (JArray [JNumber 1, JNumber 2])],
      xmlrpc \<lparr>post = \<lambda>u m ps. Inr [], decode = \<lambda>s. Inr (JArray [JObject [(''ids'', JArray [JNumber 1, JNumber 2])]])\<rparr> (products_request (url Bugzilla) (JArray [JNumber 1, JNumber 2])))"
  using getProducts_chain [of "\<lparr>post = \<lambda>u m ps. Inr [], decode = \<lambda>s. Inr (JArray [JObject [(''ids'', JArray [JNumber 1, JNumber 2])]])\<rparr>" Bugzilla "JArray [JObject [(''ids'', JArray [JNumber 1, JNumber 2])]]"
      "JArray [JNumber 1, JNumber 2]"]
  by (simp add: xmlrpc_def get_index_member_def)

theorem getProducts_first_rejected_witness:
  "xmlrpc \<lparr>post = \<lambda>u m ps. Inl (TransportError ''timeout''), decode = \<lambda>s. Inr JNull\<rparr>
      (request (url Bugzilla) ''Product.get_enterable_products'' []) = Inl (TransportError ''timeout'')
   \<and> getProducts Bugzilla \<lparr>post = \<lambda>u m ps. Inl (TransportError ''timeout''), decode = \<lambda>s. Inr JNull\<rparr> =
     ([request (url Bugzilla) ''Product.get_enterable_products'' []], Inl (TransportError ''timeout''))"
  using getProducts_first_rejected [of "\<lparr>post = \<lambda>u m ps. Inl (TransportError ''timeout''),
      decode = \<lambda>s. Inr JNull\<rparr>" Bugzilla "TransportError ''timeout''"]
  by (simp add: xmlrpc_def)

theorem getProducts_bad_response_witness:
  "xmlrpc \<lparr>post = \<lambda>u m ps. Inr [], decode = \<lambda>s. Inr (JArray [])\<rparr>
      (request (url Bugzilla) ''Product.get_enterable_products'' []) = Inr (JArray [])
   \<and> get_index_member (JArray []) 0 ''ids'' = Inl (TypeError ''Cannot read properties of undefined'')
   \<and> getProducts Bugzilla \<lparr>post = \<lambda>u m ps. Inr [], decode = \<lambda>s. Inr (JArray [])\<rparr> =
     ([request (url Bugzilla) ''Product.get_enterable_products'' []],
      Inl (TypeError ''Cannot read properties of undefined''))"
  using getProducts_bad_response [of "\<lparr>post = \<lambda>u m ps. Inr [], decode = \<lambda>s. Inr (JArray [])\<rparr>"
      Bugzilla "JArray []" "TypeError ''Cannot read properties of undefined''"]
  by (simp add: xmlrpc_def get_index_member_undefined)

theorem getBug_single_call_witness:
  "post \<lparr>post = \<lambda>u m ps. Inr ''<r/>'', decode = \<lambda>s. Inr (JString s)\<rparr> (url Bugzilla) ''Bug.get''
      [JObject [(''ids'', JArray [JNumber 42])]] = Inr ''<r/>''
   \<and> getBug Bugzilla \<lparr>post = \<lambda>u m ps. Inr ''<r/>'', decode = \<lambda>s. Inr (JString s)\<rparr> (JNumber 42) =
     ([request (url Bugzilla) ''Bug.get'' [JObject [(''ids'', JArray [JNumber 42])]]], Inr (JString ''<r/>''))"
  using getBug_single_call [of "\<lparr>post = \<lambda>u m ps. Inr ''<r/>'', decode = \<lambda>s. Inr (JString s)\<rparr>"
      Bugzilla "JNumber 42" "''<r/>''"]
  by simp

theorem updateBug_object_witness:
  "updateBug Bugzilla \<lparr>post = \<lambda>u m ps. Inr [], decode = \<lambda>s. Inr (JArray [JObject [(''ids'', JArray [JNumber 1, JNumber 2])]])\<rparr> (JNumber 7) (JObject [(''status'', JString ''RESOLVED'')]) =
     Inr (JObject [(''status'', JString ''RESOLVED''), (''ids'', JArray [JNumber 7])],
          issue \<lparr>post = \<lambda>u m ps. Inr [], decode = \<lambda>s. Inr (JArray [JObject [(''ids'', JArray [JNumber 1, JNumber 2])]])\<rparr> (request (url Bugzilla) ''Bug.update''
            [JObject [(''status'', JString ''RESOLVED''), (''ids'', JArray [JNumber 7])]]))
   \<and> map_of [(''status'', JString ''RESOLVED''), (''ids'', JArray [JNumber 7])] ''ids'' =
     Some (JArray [JNumber 7])"
proof -
  have h: "updateBug Bugzilla \<lparr>post = \<lambda>u m ps. Inr [], decode = \<lambda>s. Inr (JArray [JObject [(''ids'', JArray [JNumber 1, JNumber 2])]])\<rparr> (JNumber 7) (JObject [(''status'', JString ''RESOLVED'')]) =
     Inr (JObject [(''status'', JString ''RESOLVED''), (''ids'', JArray [JNumber 7])],
          issue \<lparr>post = \<lambda>u m ps. Inr [], decode = \<lambda>s. Inr (JArray [JObject [(''ids'', JArray [JNumber 1, JNumber 2])]])\<rparr> (request (url Bugzilla) ''Bug.update''
            [JObject [(''status'', JString ''RESOLVED''), (''ids'', JArray [JNumber 7])]]))"
    by (simp add: updateBug_def)
  from updateBug_object [OF h] h show ?thesis by auto
qed

theorem updateBug_non_object_witness:
  "(\<forall>ps. JNull \<noteq> JObject ps) \<and> (\<forall>xs. JNull \<noteq> JArray xs) \<and> (\<forall>d. JNull \<noteq> JDate d)
   \<and> updateBug Bugzilla \<lparr>post = \<lambda>u m ps. Inr [], decode = \<lambda>s. Inr (JArray [JObject [(''ids'', JArray [JNumber 1, JNumber 2])]])\<rparr> (JNumber 7) JNull = Inl (TypeError ''Cannot set properties of null'')"
proof -
  have h1: "\<forall>ps. JNull \<noteq> JObject ps" and h2: "\<forall>xs. JNull \<noteq> JArray xs"
    and h3: "\<forall>d. JNull \<noteq> JDate d" by simp_all
  from updateBug_non_object [OF h1 h2 h3, of Bugzilla "\<lparr>post = \<lambda>u m ps. Inr [], decode = \<lambda>s. Inr (JArray [JObject [(''ids'', JArray [JNumber 1, JNumber 2])]])\<rparr>" "JNumber 7"] h1 h2 h3 show ?thesis
    by (simp add: updateBug_def)
qed

theorem getVersion_logs_witness:
  "xmlrpc \<lparr>post = \<lambda>u m ps. Inl (TransportError ''down''), decode = \<lambda>s. Inr JNull\<rparr>
      (request (url Bugzilla) ''Bugzilla.version'' []) = Inl (TransportError ''down'')
   \<and> snd (getVersion Bugzilla \<lparr>post = \<lambda>u m ps. Inl (TransportError ''down''), decode = \<lambda>s. Inr JNull\<rparr>) =
     [LogArguments (TransportError ''down'')]"
proof -
  have h: "xmlrpc \<lparr>post = \<lambda>u m ps. Inl (TransportError ''down''), decode = \<lambda>s. Inr JNull\<rparr>
      (request (url Bugzilla) ''Bugzilla.version'' []) = Inl (TransportError ''down'')"
    by (simp add: xmlrpc_def)
  with getVersion_logs [of Bugzilla "\<lparr>post = \<lambda>u m ps. Inl (TransportError ''down''),
      decode = \<lambda>s. Inr JNull\<rparr>"] show ?thesis by blast
qed

theorem client_requests_safe_witness:
  "products_request (url Bugzilla) (JArray [JNumber 1, JNumber 2]) \<in> set (op_requests Bugzilla \<lparr>post = \<lambda>u m ps. Inr [], decode = \<lambda>s. Inr (JArray [JObject [(''ids'', JArray [JNumber 1, JNumber 2])]])\<rparr> GetProducts)
   \<and> rq_url (products_request (url Bugzilla) (JArray [JNumber 1, JNumber 2])) = url Bugzilla
   \<and> rq_method (products_request (url Bugzilla) (JArray [JNumber 1, JNumber 2])) \<in> remote_methods"
proof -
  have h: "products_request (url Bugzilla) (JArray [JNumber 1, JNumber 2]) \<in> set (op_requests Bugzilla \<lparr>post = \<lambda>u m ps. Inr [], decode = \<lambda>s. Inr (JArray [JObject [(''ids'', JArray [JNumber 1, JNumber 2])]])\<rparr> GetProducts)"
    by (simp add: getProducts_steps then_call_def issue_def xmlrpc_def get_index_member_def)
  from client_requests_safe [OF h] h show ?thesis by blast
qed

end
