(* ===== verification/DateCodec.thy ===== *)
theory DateCodec
  imports Prelude
begin

text \<open>
  The \<open>dateTime.iso8601\<close> type registered with the XML-RPC layer
  (\<open>src/src/bugzilla.js\<close>, lines 129--144): an encoder from a \<open>Date\<close> to text and
  a decoder from the text of a response to a \<open>Date\<close>.

  A \<open>Date\<close> is read by the encoder only through its UTC getters
  (\<open>getUTCFullYear\<close>, \<open>getUTCMonth\<close>, \<dots>), so it is modelled by their values, the
  record \<open>js_date\<close> (month 0--11 as \<open>getUTCMonth\<close> returns it). The helper
  \<open>_pad\<close> that the encoder calls is not defined in the repository; it is modelled
  as the two-digit zero padding the spec describes.

  The decoder inserts hyphens into a compact \<open>YYYYMMDD\<close> date and hands the text
  to \<open>new Date(text)\<close>. The \<open>Date\<close> constructor is the language's: a string in
  the ECMAScript Date Time String Format yields the time value of its fields, read
  in UTC, at a given offset, or in local time; any other string is
  implementation-defined. \<open>parse_date_time\<close> models that format (ECMA-262, Date
  Time String Format) and returns the fields and the zone they are read in, or
  \<open>None\<close> for a string outside the format.
\<close>

record js_date =
  utc_year :: int
  utc_month :: nat
  utc_date :: nat
  utc_hours :: nat
  utc_minutes :: nat
  utc_seconds :: nat
  utc_ms :: nat

datatype time_zone = ZUtc | ZLocal | ZOffset int

record date_time_value =
  dt_fields :: js_date
  dt_zone :: time_zone

subsection \<open>Encoder\<close>

definition pad :: "nat \<Rightarrow> string" where
  "pad n = (if n < 10 then CHR ''0'' # string_of_nat n else string_of_nat n)"

definition encode_date :: "js_date \<Rightarrow> string" where
  "encode_date d =
     string_of_int (utc_year d) @ ''-'' @ pad (utc_month d + 1) @ ''-'' @
     pad (utc_date d) @ ''T'' @ pad (utc_hours d) @ '':'' @
     pad (utc_minutes d) @ '':'' @ pad (utc_seconds d) @ ''Z''"

subsection \<open>Decoder: hyphen insertion\<close>

text \<open>
  \<open>text.replace(/(\d{4})(\d{2})(\d{2})(.+)/, "$1-$2-$3$4")\<close>: the leftmost position
  where eight digits are followed by at least one character that is not a line
  terminator; the match is rewritten with two hyphens inserted, the rest of the text
  is kept.
\<close>

definition compact_date_at :: "string \<Rightarrow> bool" where
  "compact_date_at s \<longleftrightarrow> 9 \<le> length s \<and> list_all is_digit (take 8 s) \<and> \<not> is_line_terminator (s ! 8)"

fun insert_date_hyphens :: "string \<Rightarrow> string" where
  "insert_date_hyphens [] = []"
| "insert_date_hyphens (c # cs) =
     (if compact_date_at (c # cs)
      then take 4 (c # cs) @ ''-'' @ take 2 (drop 4 (c # cs)) @ ''-'' @ drop 6 (c # cs)
      else c # insert_date_hyphens cs)"

definition decode_text :: "string \<Rightarrow> string" where
  "decode_text text = (if CHR ''-'' \<in> set text then text else insert_date_hyphens text)"

subsection \<open>The Date Time String Format\<close>

definition digits_n :: "nat \<Rightarrow> string \<Rightarrow> (nat \<times> string) option" where
  "digits_n n s =
     (if n \<le> length s \<and> list_all is_digit (take n s)
      then Some (nat_of_digits (take n s), drop n s) else None)"

definition lit :: "char \<Rightarrow> string \<Rightarrow> string option" where
  "lit c s = (case s of x # r \<Rightarrow> if x = c then Some r else None | [] \<Rightarrow> None)"

text \<open>An optional component: the separator and exactly \<open>n\<close> digits, or nothing.\<close>

definition opt_field :: "char \<Rightarrow> nat \<Rightarrow> string \<Rightarrow> (nat option \<times> string) option" where
  "opt_field c n s =
     (case s of
        x # r \<Rightarrow> if x = c then map_option (\<lambda>(v, r'). (Some v, r')) (digits_n n r) else Some (None, s)
      | [] \<Rightarrow> Some (None, s))"

text \<open>\<open>YYYY\<close>, or an expanded year \<open>\<plusminus>YYYYYY\<close> (\<open>-000000\<close> is not allowed).\<close>

definition parse_year :: "string \<Rightarrow> (int \<times> string) option" where
  "parse_year s =
     (case s of
        c # r \<Rightarrow>
          if c = CHR ''+'' then map_option (\<lambda>(y, r'). (int y, r')) (digits_n 6 r)
          else if c = CHR ''-'' then
            (case digits_n 6 r of
               Some (y, r') \<Rightarrow> if y = 0 then None else Some (- int y, r')
             | None \<Rightarrow> None)
          else map_option (\<lambda>(y, r'). (int y, r')) (digits_n 4 s)
      | [] \<Rightarrow> None)"

text \<open>The UTC offset: \<open>Z\<close>, \<open>+HH:mm\<close>, \<open>-HH:mm\<close>, or absent (local time).\<close>

definition parse_zone :: "string \<Rightarrow> (time_zone \<times> string) option" where
  "parse_zone s =
     (case s of
        c # r \<Rightarrow>
          if c = CHR ''Z'' then Some (ZUtc, r)
          else if c = CHR ''+'' \<or> c = CHR ''-'' then do {
            (h, r1) \<leftarrow> digits_n 2 r;
            r2 \<leftarrow> lit CHR '':'' r1;
            (m, r3) \<leftarrow> digits_n 2 r2;
            if h \<le> 23 \<and> m \<le> 59
            then Some (ZOffset ((if c = CHR ''-'' then -1 else 1) * int (60 * h + m)), r3)
            else None
          }
          else Some (ZLocal, s)
      | [] \<Rightarrow> Some (ZLocal, s))"

definition parse_time :: "string \<Rightarrow> (nat \<times> nat \<times> nat \<times> nat \<times> time_zone) option" where
  "parse_time s = do {
     (h, r1) \<leftarrow> digits_n 2 s;
     r2 \<leftarrow> lit CHR '':'' r1;
     (m, r3) \<leftarrow> digits_n 2 r2;
     (sec, r4) \<leftarrow> opt_field CHR '':'' 2 r3;
     (msec, r5) \<leftarrow> (case sec of None \<Rightarrow> Some (None, r4) | Some _ \<Rightarrow> opt_field CHR ''.'' 3 r4);
     (z, r6) \<leftarrow> parse_zone r5;
     let sec' = (case sec of None \<Rightarrow> 0 | Some v \<Rightarrow> v);
     let msec' = (case msec of None \<Rightarrow> 0 | Some v \<Rightarrow> v);
     if r6 = [] \<and> h \<le> 24 \<and> m \<le> 59 \<and> sec' \<le> 59 \<and> (h = 24 \<longrightarrow> m = 0 \<and> sec' = 0 \<and> msec' = 0)
     then Some (h, m, sec', msec', z) else None
   }"

definition parse_date_time :: "string \<Rightarrow> date_time_value option" where
  "parse_date_time s = do {
     (y, s1) \<leftarrow> parse_year s;
     (mo, s2) \<leftarrow> opt_field CHR ''-'' 2 s1;
     (d, s3) \<leftarrow> (case mo of None \<Rightarrow> Some (None, s2) | Some _ \<Rightarrow> opt_field CHR ''-'' 2 s2);
     let mo' = (case mo of None \<Rightarrow> 1 | Some v \<Rightarrow> v);
     let d' = (case d of None \<Rightarrow> 1 | Some v \<Rightarrow> v);
     if \<not> (1 \<le> mo' \<and> mo' \<le> 12 \<and> 1 \<le> d' \<and> d' \<le> 31) then None
     else (case s3 of
             [] \<Rightarrow> Some \<lparr>dt_fields = \<lparr>utc_year = y, utc_month = mo' - 1, utc_date = d',
                        utc_hours = 0, utc_minutes = 0, utc_seconds = 0, utc_ms = 0\<rparr>,
                        dt_zone = ZUtc\<rparr>
           | c # r \<Rightarrow>
               if c = CHR ''T'' then
                 map_option (\<lambda>(h, m, sec, msec, z).
                   \<lparr>dt_fields = \<lparr>utc_year = y, utc_month = mo' - 1, utc_date = d',
                      utc_hours = h, utc_minutes = m, utc_seconds = sec, utc_ms = msec\<rparr>,
                    dt_zone = z\<rparr>) (parse_time r)
               else None)
   }"

definition decode_date :: "string \<Rightarrow> date_time_value option" where
  "decode_date text = parse_date_time (decode_text text)"

definition valid_fields :: "js_date \<Rightarrow> bool" where
  "valid_fields d \<longleftrightarrow> utc_month d < 12 \<and> 1 \<le> utc_date d \<and> utc_date d \<le> 31
     \<and> utc_hours d < 24 \<and> utc_minutes d < 60 \<and> utc_seconds d < 60"

text \<open>The years whose \<open>string_of_int\<close> text is a year of the Date Time String Format.\<close>

definition format_year :: "int \<Rightarrow> bool" where
  "format_year y \<longleftrightarrow> (1000 \<le> y \<and> y \<le> 9999) \<or> (- 999999 \<le> y \<and> y \<le> - 100000)"

subsection \<open>Parsing lemmas\<close>

lemma pad_digits:
  assumes "n < 100"
  shows "length (pad n) = 2 \<and> list_all is_digit (pad n) \<and> nat_of_digits (pad n) = n"
proof (cases "n < 10")
  case True
  have "is_digit CHR ''0''" "digit_value CHR ''0'' = 0"
    by (simp_all add: is_digit_def digit_value_def)
  with True show ?thesis
    by (simp add: pad_def string_of_nat_small digit_char_is_digit nat_of_digits_def
        digit_value_digit_char)
next
  case False
  then show ?thesis
    using assms length_string_of_nat_eq [of 1 n] string_of_nat_digits [of n]
    by (simp add: pad_def list_all_iff)
qed

lemma digits_n_long:
  "n \<le> length s \<Longrightarrow> list_all is_digit s \<Longrightarrow>
   digits_n n (s @ r) = Some (nat_of_digits (take n s), drop n s @ r)"
  by (auto simp: digits_n_def list_all_iff dest: in_set_takeD)

lemma digits_n_append:
  "length s = n \<Longrightarrow> list_all is_digit s \<Longrightarrow> digits_n n (s @ r) = Some (nat_of_digits s, r)"
  using digits_n_long [of n s r] by simp

lemma digits_n_short:
  assumes "length s < n" and "\<not> is_digit x"
  shows "digits_n n (s @ x # r) = None"
proof -
  have "take n (s @ x # r) = s @ take (n - length s) (x # r)"
    using assms(1) by simp
  moreover have "x \<in> set (take (n - length s) (x # r))"
    using assms(1) by (cases "n - length s") auto
  ultimately show ?thesis
    using assms(2) by (auto simp: digits_n_def list_all_iff)
qed

lemma parse_year_unsigned:
  assumes "s = c # cs" and "is_digit c"
  shows "parse_year s = map_option (\<lambda>(y, r'). (int y, r')) (digits_n 4 s)"
proof -
  have "c \<noteq> CHR ''+''" "c \<noteq> CHR ''-''"
    using assms(2) by (auto simp: is_digit_def)
  with assms(1) show ?thesis by (simp add: parse_year_def)
qed

lemma parse_year_4:
  assumes "length s = 4" "list_all is_digit s"
  shows "parse_year (s @ r) = Some (int (nat_of_digits s), r)"
proof -
  obtain c cs where s: "s = c # cs" using assms(1) by (cases s) auto
  with assms(2) have "is_digit c" by simp
  with s have "parse_year (s @ r) = map_option (\<lambda>(y, r'). (int y, r')) (digits_n 4 (s @ r))"
    by (intro parse_year_unsigned) simp_all
  then show ?thesis
    by (simp add: digits_n_append [OF assms])
qed

lemma parse_year_minus:
  "parse_year (CHR ''-'' # r) =
     (case digits_n 6 r of Some (y, r') \<Rightarrow> if y = 0 then None else Some (- int y, r') | None \<Rightarrow> None)"
  by (simp add: parse_year_def)

lemma opt_field_present:
  "length s = n \<Longrightarrow> list_all is_digit s \<Longrightarrow>
   opt_field c n (c # s @ r) = Some (Some (nat_of_digits s), r)"
  by (simp add: opt_field_def digits_n_append)

lemma opt_field_absent:
  "x \<noteq> c \<Longrightarrow> opt_field c n (x # r) = Some (None, x # r)" "opt_field c n [] = Some (None, [])"
  by (simp_all add: opt_field_def)

lemma lit_Cons [simp]: "lit c (c # r) = Some r"
  by (simp add: lit_def)

lemma parse_zone_Z: "parse_zone (CHR ''Z'' # r) = Some (ZUtc, r)"
  by (simp add: parse_zone_def)

lemmas parse_steps = opt_field_present opt_field_absent digits_n_append parse_zone_Z

lemma parse_after_year:
  assumes "parse_year s = Some (y, CHR ''-'' # P1 @ CHR ''-'' # P2 @ CHR ''T'' # P3 @ CHR '':'' # P4 @
      CHR '':'' # P5 @ [CHR ''Z''])"
    and "\<forall>P \<in> {P1, P2, P3, P4, P5}. length P = 2 \<and> list_all is_digit P"
    and "1 \<le> nat_of_digits P1" "nat_of_digits P1 \<le> 12" "1 \<le> nat_of_digits P2" "nat_of_digits P2 \<le> 31"
    and "nat_of_digits P3 \<le> 23" "nat_of_digits P4 \<le> 59" "nat_of_digits P5 \<le> 59"
  shows "parse_date_time s =
    Some \<lparr>dt_fields = \<lparr>utc_year = y, utc_month = nat_of_digits P1 - 1,
      utc_date = nat_of_digits P2, utc_hours = nat_of_digits P3, utc_minutes = nat_of_digits P4,
      utc_seconds = nat_of_digits P5, utc_ms = 0\<rparr>, dt_zone = ZUtc\<rparr>"
  using assms by (simp add: parse_date_time_def parse_time_def parse_steps)

lemma parse_year_then_digit:
  assumes "parse_year s = Some (y, c # r)" and "is_digit c"
  shows "parse_date_time s = None"
proof -
  have "c \<noteq> CHR ''-''" "c \<noteq> CHR ''T''"
    using assms(2) by (auto simp: is_digit_def)
  with assms(1) show ?thesis
    by (simp add: parse_date_time_def opt_field_absent)
qed

lemma string_of_nat_Cons_digit:
  obtains c cs where "string_of_nat n = c # cs" and "is_digit c"
  using string_of_nat_digits [of n] string_of_nat_not_empty [of n]
  by (cases "string_of_nat n") auto

lemma drop_string_of_nat_digit:
  assumes "k < length (string_of_nat n)"
  obtains c cs where "drop k (string_of_nat n) = c # cs" and "is_digit c"
proof -
  obtain c cs where d: "drop k (string_of_nat n) = c # cs"
    using assms by (cases "drop k (string_of_nat n)") auto
  then have "c \<in> set (string_of_nat n)"
    by (metis in_set_dropD list.set_intros(1))
  with d show ?thesis using string_of_nat_digits that by blast
qed

lemma parse_year_format:
  assumes "format_year y"
  shows "parse_year (string_of_int y @ CHR ''-'' # r) = Some (y, CHR ''-'' # r)"
proof (cases "0 \<le> y")
  case True
  with assms have y: "1000 \<le> y" "y \<le> 9999" by (auto simp: format_year_def)
  then have "length (string_of_nat (nat y)) = 4"
    using length_string_of_nat_eq [of 3 "nat y"] by simp arith
  then show ?thesis
    using True parse_year_4 [of "string_of_nat (nat y)"] string_of_nat_digits [of "nat y"]
    by (simp add: string_of_int_def list_all_iff)
next
  case False
  with assms have y: "- 999999 \<le> y" "y \<le> - 100000" by (auto simp: format_year_def)
  then have "length (string_of_nat (nat (- y))) = 6"
    using length_string_of_nat_eq [of 5 "nat (- y)"] by simp arith
  then have "digits_n 6 (string_of_nat (nat (- y)) @ CHR ''-'' # r) = Some (nat (- y), CHR ''-'' # r)"
    using digits_n_append string_of_nat_digits [of "nat (- y)"] by (simp add: list_all_iff)
  with False y show ?thesis
    by (simp add: string_of_int_def parse_year_minus)
qed

lemma parse_nonneg_year_not_format:
  assumes "0 \<le> y" and "\<not> format_year y"
  shows "parse_date_time (string_of_int y @ CHR ''-'' # r) = None"
proof -
  define K where "K = string_of_nat (nat y)"
  obtain c cs where K: "K = c # cs" and c: "is_digit c"
    unfolding K_def by (rule string_of_nat_Cons_digit)
  have yr: "parse_year (K @ CHR ''-'' # r) = map_option (\<lambda>(y, r'). (int y, r')) (digits_n 4 (K @ CHR ''-'' # r))"
    using K c by (intro parse_year_unsigned) simp_all
  have dK: "list_all is_digit K"
    unfolding K_def using string_of_nat_digits by (simp add: list_all_iff)
  show ?thesis
  proof (cases "y < 1000")
    case True
    then have "length K < 4"
      using assms(1) length_string_of_nat_le [of 3 "nat y"] unfolding K_def by simp arith
    then have "parse_year (K @ CHR ''-'' # r) = None"
      using yr digits_n_short by simp
    with assms(1) show ?thesis
      by (simp add: parse_date_time_def string_of_int_def K_def)
  next
    case False
    with assms have "9999 < y" by (auto simp: format_year_def)
    then have long: "4 < length K"
      using length_string_of_nat_le [of 4 "nat y"] unfolding K_def by simp arith
    then obtain c' cs' where d: "drop 4 K = c' # cs'" and c': "is_digit c'"
      unfolding K_def by (rule drop_string_of_nat_digit)
    have "parse_year (K @ CHR ''-'' # r) = Some (int (nat_of_digits (take 4 K)), c' # cs' @ CHR ''-'' # r)"
      using yr long dK d by (simp add: digits_n_long)
    then have "parse_date_time (K @ CHR ''-'' # r) = None"
      using c' by (rule parse_year_then_digit)
    with assms(1) show ?thesis
      by (simp add: string_of_int_def K_def)
  qed
qed

lemma parse_neg_year_not_format:
  assumes "y < 0" and "\<not> format_year y"
  shows "parse_date_time (string_of_int y @ CHR ''-'' # r) = None"
proof -
  define K where "K = string_of_nat (nat (- y))"
  have dK: "list_all is_digit K"
    unfolding K_def using string_of_nat_digits by (simp add: list_all_iff)
  have s: "string_of_int y @ CHR ''-'' # r = CHR ''-'' # K @ CHR ''-'' # r"
    using assms(1) by (simp add: string_of_int_def K_def)
  show ?thesis
  proof (cases "- y < 100000")
    case True
    then have "length K < 6"
      using length_string_of_nat_le [of 5 "nat (- y)"] unfolding K_def by simp arith
    then have "parse_year (CHR ''-'' # K @ CHR ''-'' # r) = None"
      using digits_n_short by (simp add: parse_year_minus)
    with s show ?thesis by (simp add: parse_date_time_def)
  next
    case False
    with assms have "999999 < - y" by (auto simp: format_year_def)
    then have long: "6 < length K"
      using length_string_of_nat_le [of 6 "nat (- y)"] unfolding K_def by simp arith
    then obtain c' cs' where d: "drop 6 K = c' # cs'" and c': "is_digit c'"
      unfolding K_def by (rule drop_string_of_nat_digit)
    have dn: "digits_n 6 (K @ CHR ''-'' # r) = Some (nat_of_digits (take 6 K), c' # cs' @ CHR ''-'' # r)"
      using long dK d by (simp add: digits_n_long)
    show ?thesis
    proof (cases "nat_of_digits (take 6 K) = 0")
      case True
      with s dn show ?thesis by (simp add: parse_year_minus parse_date_time_def)
    next
      case False
      with dn have "parse_year (CHR ''-'' # K @ CHR ''-'' # r) =
          Some (- int (nat_of_digits (take 6 K)), c' # cs' @ CHR ''-'' # r)"
        by (simp add: parse_year_minus)
      with s c' show ?thesis by (metis parse_year_then_digit)
    qed
  qed
qed

lemmas encode_date_split = encode_date_def [simplified append_Cons append_Nil]

lemma decode_text_hyphenated: "CHR ''-'' \<in> set text \<Longrightarrow> decode_text text = text"
  by (simp add: decode_text_def)

lemma insert_date_hyphens_at:
  "compact_date_at s \<Longrightarrow>
   insert_date_hyphens s = take 4 s @ ''-'' @ take 2 (drop 4 s) @ ''-'' @ drop 6 s"
  by (cases s) (auto simp: compact_date_at_def)

lemma pad_facts:
  "n < 100 \<Longrightarrow> length (pad n) = 2" "n < 100 \<Longrightarrow> list_all is_digit (pad n)"
  "n < 100 \<Longrightarrow> nat_of_digits (pad n) = n"
  using pad_digits by blast+

lemma decode_encode_fields:
  assumes "valid_fields d" and "format_year (utc_year d)"
  shows "decode_date (encode_date d) = Some \<lparr>dt_fields = d\<lparr>utc_ms := 0\<rparr>, dt_zone = ZUtc\<rparr>"
proof -
  have r: "utc_month d + 1 < 100" "utc_date d < 100" "utc_hours d < 100" "utc_minutes d < 100"
    "utc_seconds d < 100"
    using assms(1) by (simp_all add: valid_fields_def)
  have hy: "CHR ''-'' \<in> set (encode_date d)"
    by (simp add: encode_date_split)
  have "parse_date_time (encode_date d) =
      Some \<lparr>dt_fields = \<lparr>utc_year = utc_year d, utc_month = utc_month d, utc_date = utc_date d,
        utc_hours = utc_hours d, utc_minutes = utc_minutes d, utc_seconds = utc_seconds d,
        utc_ms = 0\<rparr>, dt_zone = ZUtc\<rparr>"
    unfolding encode_date_split
    using parse_after_year [OF parse_year_format [OF assms(2)]] assms(1) r
    by (simp add: pad_facts valid_fields_def)
  then show ?thesis
    using hy by (cases d) (simp add: decode_date_def decode_text_hyphenated)
qed

lemma decode_compact_hyphens:
  assumes "length Y = 4" "length M = 2" "length D = 2" "list_all is_digit (Y @ M @ D)"
    and "r \<noteq> []" "\<not> is_line_terminator (hd r)" "CHR ''-'' \<notin> set r"
  shows "decode_date (Y @ M @ D @ r) = parse_date_time (Y @ ''-'' @ M @ ''-'' @ D @ r)"
proof -
  have "CHR ''-'' \<notin> set (Y @ M @ D)"
  proof
    assume "CHR ''-'' \<in> set (Y @ M @ D)"
    with assms(4) have "is_digit CHR ''-''"
      unfolding list_all_iff by (rule bspec)
    then show False by simp
  qed
  with assms(7) have nh: "CHR ''-'' \<notin> set (Y @ M @ D @ r)"
    by simp
  have "(Y @ M @ D @ r) ! 8 = hd r"
    using assms(1-3,5) by (simp add: nth_append hd_conv_nth)
  moreover have "Suc 0 \<le> length r"
    using assms(5) by (cases r) simp_all
  ultimately have "compact_date_at (Y @ M @ D @ r)"
    using assms by (simp add: compact_date_at_def)
  then have "insert_date_hyphens (Y @ M @ D @ r) = Y @ ''-'' @ M @ ''-'' @ D @ r"
    using assms(1-3) by (simp add: insert_date_hyphens_at)
  with nh show ?thesis
    by (simp add: decode_date_def decode_text_def)
qed

lemma digits_no_hyphen: "list_all is_digit s \<Longrightarrow> CHR ''-'' \<notin> set s"
  by (auto simp: list_all_iff is_digit_def)

lemma parse_zone_Nil: "parse_zone [] = Some (ZLocal, [])"
  by (simp add: parse_zone_def)

lemma opt_field_last:
  "length s = n \<Longrightarrow> list_all is_digit s \<Longrightarrow> opt_field c n (c # s) = Some (Some (nat_of_digits s), [])"
  using opt_field_present [of s n c "[]"] by simp

lemma parse_time_compact:
  assumes "length P = 2" "list_all is_digit P" "is_digit c"
  shows "parse_time (P @ c # r) = None"
proof -
  have "c \<noteq> CHR '':''" using assms(3) by (auto simp: is_digit_def)
  then show ?thesis
    using assms(1,2) by (simp add: parse_time_def digits_n_append lit_def)
qed

lemma parse_compact_year_then_digits:
  assumes "length Y = 4" "length M = 2" "list_all is_digit (Y @ M)"
  shows "parse_date_time (Y @ M @ r) = None"
proof -
  obtain c cs where M: "M = c # cs" using assms(2) by (cases M) auto
  have "parse_year (Y @ M @ r) = Some (int (nat_of_digits Y), c # cs @ r)"
    using assms M parse_year_4 [of Y "M @ r"] by simp
  moreover have "is_digit c" using assms(3) M by simp
  ultimately show ?thesis by (rule parse_year_then_digit)
qed

subsection \<open>Properties of the codec\<close>

text \<open>
  C4: decoding the text the encoder produces gives back the fields of the date, read
  in UTC, with the milliseconds dropped, for every date whose year is written in the
  Date Time String Format (four digits, or six digits after a minus sign).
\<close>

theorem decode_encode_date:
  assumes "valid_fields d" and "format_year (utc_year d)"
  shows "decode_date (encode_date d) = Some \<lparr>dt_fields = d\<lparr>utc_ms := 0\<rparr>, dt_zone = ZUtc\<rparr>"
  using assms by (rule decode_encode_fields)

text \<open>
  C5: the encoder's text decodes at all exactly when the year is written in the
  format: \<open>getUTCFullYear\<close> is not padded, so a year below 1000, above 9999, or
  negative with fewer or more than six digits gives text outside the format.
\<close>

theorem decode_encode_date_defined:
  assumes "valid_fields d"
  shows "decode_date (encode_date d) \<noteq> None \<longleftrightarrow> format_year (utc_year d)"
proof
  assume "format_year (utc_year d)"
  then show "decode_date (encode_date d) \<noteq> None"
    using decode_encode_fields [OF assms] by simp
next
  assume ok: "decode_date (encode_date d) \<noteq> None"
  show "format_year (utc_year d)"
  proof (rule ccontr)
    assume nf: "\<not> format_year (utc_year d)"
    have hy: "CHR ''-'' \<in> set (encode_date d)"
      by (simp add: encode_date_split)
    have "parse_date_time (encode_date d) = None"
      unfolding encode_date_split
      using parse_nonneg_year_not_format [OF _ nf] parse_neg_year_not_format [OF _ nf]
      by (cases "0 \<le> utc_year d") simp_all
    with ok hy show False
      by (simp add: decode_date_def decode_text_hyphenated)
  qed
qed

text \<open>
  C6: a compact date \<open>YYYYMMDD\<close> followed by the rest of a date-time without a
  hyphen decodes exactly as the hyphenated \<open>YYYY-MM-DD\<close> form.
\<close>

theorem decode_compact_date:
  assumes "length Y = 4" "length M = 2" "length D = 2" "list_all is_digit (Y @ M @ D)"
    and "r \<noteq> []" "\<not> is_line_terminator (hd r)" "CHR ''-'' \<notin> set r"
  shows "decode_date (Y @ M @ D @ r) = parse_date_time (Y @ ''-'' @ M @ ''-'' @ D @ r)"
  using assms by (rule decode_compact_hyphens)

text \<open>
  C11: the XML-RPC standard form \<open>YYYYMMDDTHH:MM:SS\<close> of a date-time, as a
  server sends it, gets its hyphens and is read with every field it carries, but it
  has no zone designator, so the \<open>Date\<close> constructor reads it in the local time
  zone, not in UTC.
\<close>

theorem decode_xmlrpc_form_local_time:
  assumes "length Y = 4" "list_all is_digit Y"
    and "list_all (\<lambda>P. length P = 2 \<and> list_all is_digit P) [M, D, H, N, S]"
    and "1 \<le> nat_of_digits M" "nat_of_digits M \<le> 12" "1 \<le> nat_of_digits D" "nat_of_digits D \<le> 31"
    and "nat_of_digits H \<le> 23" "nat_of_digits N \<le> 59" "nat_of_digits S \<le> 59"
  shows "decode_date (Y @ M @ D @ ''T'' @ H @ '':'' @ N @ '':'' @ S) =
    Some \<lparr>dt_fields = \<lparr>utc_year = int (nat_of_digits Y), utc_month = nat_of_digits M - 1,
      utc_date = nat_of_digits D, utc_hours = nat_of_digits H, utc_minutes = nat_of_digits N,
      utc_seconds = nat_of_digits S, utc_ms = 0\<rparr>, dt_zone = ZLocal\<rparr>"
proof -
  have "decode_date (Y @ M @ D @ ''T'' @ H @ '':'' @ N @ '':'' @ S) =
      parse_date_time (Y @ ''-'' @ M @ ''-'' @ D @ ''T'' @ H @ '':'' @ N @ '':'' @ S)"
    using assms(1-3) digits_no_hyphen [of H] digits_no_hyphen [of N] digits_no_hyphen [of S]
    by (intro decode_compact_hyphens) (simp_all add: is_line_terminator_def)
  also have "\<dots> = Some \<lparr>dt_fields = \<lparr>utc_year = int (nat_of_digits Y), utc_month = nat_of_digits M - 1,
      utc_date = nat_of_digits D, utc_hours = nat_of_digits H, utc_minutes = nat_of_digits N,
      utc_seconds = nat_of_digits S, utc_ms = 0\<rparr>, dt_zone = ZLocal\<rparr>"
    using assms parse_year_4 [OF assms(1,2)]
    by (simp add: parse_date_time_def parse_time_def parse_steps opt_field_last parse_zone_Nil)
  finally show ?thesis .
qed


text \<open>
  C12: a compact date-time whose time is compact too (\<open>YYYYMMDDThhmmss\<close>, as the
  spec's example \<open>20130513T000000Z\<close> has it) is never decoded, whatever follows
  the time: the code inserts hyphens into the date only, and a time without colons
  is outside the format.
\<close>

theorem decode_compact_time_rejected:
  assumes "length Y = 4" "length M = 2" "length D = 2" "list_all is_digit (Y @ M @ D)"
    and "length T = 6" "list_all is_digit T"
  shows "decode_date (Y @ M @ D @ CHR ''T'' # T @ z) = None"
proof (cases "CHR ''-'' \<in> set z")
  case True
  then have "decode_date (Y @ M @ D @ CHR ''T'' # T @ z) = parse_date_time (Y @ M @ D @ CHR ''T'' # T @ z)"
    by (simp add: decode_date_def decode_text_hyphenated)
  also have "\<dots> = None"
    using assms(1,2,4) parse_compact_year_then_digits [of Y M "D @ CHR ''T'' # T @ z"] by simp
  finally show ?thesis .
next
  case False
  define P where "P = take 2 T"
  have T: "T = P @ T ! 2 # drop 3 T"
    using assms(5) id_take_nth_drop [of 2 T] unfolding P_def by simp
  have P: "length P = 2" "list_all is_digit P"
    using assms(5,6) unfolding P_def by (auto simp: list_all_iff dest: in_set_takeD)
  have c: "is_digit (T ! 2)"
    using assms(5,6) by (simp add: list_all_length)
  have pt: "parse_time (T @ z) = None"
    by (subst T) (simp add: parse_time_compact [OF P c])
  have "decode_date (Y @ M @ D @ CHR ''T'' # T @ z) =
      parse_date_time (Y @ ''-'' @ M @ ''-'' @ D @ CHR ''T'' # T @ z)"
    using assms(1-4) False digits_no_hyphen [OF assms(6)]
    by (intro decode_compact_hyphens) (simp_all add: is_line_terminator_def)
  also have "\<dots> = None"
    using assms(1-4) pt parse_year_4 [of Y]
    by (simp add: parse_date_time_def parse_steps Let_def)
  finally show ?thesis .
qed


text \<open>
  C13: a compact date whose text contains a hyphen anywhere, as a negative UTC offset
  \<open>-05:00\<close> has one, is never decoded: the \<open>/-/\<close> test skips the hyphen
  insertion and the year is followed by a digit.
\<close>

theorem decode_compact_hyphen_rejected:
  assumes "length Y = 4" "length M = 2" "length D = 2" "list_all is_digit (Y @ M @ D)"
    and "CHR ''-'' \<in> set r"
  shows "decode_date (Y @ M @ D @ r) = None"
proof -
  have "decode_date (Y @ M @ D @ r) = parse_date_time (Y @ M @ D @ r)"
    using assms(5) by (simp add: decode_date_def decode_text_hyphenated)
  also have "\<dots> = None"
    using assms(1,2,4) parse_compact_year_then_digits [of Y M "D @ r"] by simp
  finally show ?thesis .
qed


subsection \<open>Witnesses\<close>

theorem decode_encode_date_witness:
  "valid_fields \<lparr>utc_year = 2013, utc_month = 4, utc_date = 13, utc_hours = 0,
       utc_minutes = 5, utc_seconds = 9, utc_ms = 7\<rparr>
   \<and> format_year 2013
   \<and> decode_date (encode_date \<lparr>utc_year = 2013, utc_month = 4, utc_date = 13, utc_hours = 0,
       utc_minutes = 5, utc_seconds = 9, utc_ms = 7\<rparr>) =
     Some \<lparr>dt_fields = \<lparr>utc_year = 2013, utc_month = 4, utc_date = 13, utc_hours = 0,
       utc_minutes = 5, utc_seconds = 9, utc_ms = 0\<rparr>, dt_zone = ZUtc\<rparr>"
  using decode_encode_date [of "\<lparr>utc_year = 2013, utc_month = 4, utc_date = 13, utc_hours = 0,
       utc_minutes = 5, utc_seconds = 9, utc_ms = 7\<rparr>"]
  by (simp add: valid_fields_def format_year_def)

theorem decode_encode_date_defined_witness:
  "valid_fields \<lparr>utc_year = 999, utc_month = 0, utc_date = 1, utc_hours = 0,
       utc_minutes = 0, utc_seconds = 0, utc_ms = 0\<rparr>
   \<and> decode_date (encode_date \<lparr>utc_year = 999, utc_month = 0, utc_date = 1, utc_hours = 0,
       utc_minutes = 0, utc_seconds = 0, utc_ms = 0\<rparr>) = None"
  using decode_encode_date_defined [of "\<lparr>utc_year = 999, utc_month = 0, utc_date = 1, utc_hours = 0,
       utc_minutes = 0, utc_seconds = 0, utc_ms = 0\<rparr>"]
  by (simp add: valid_fields_def format_year_def)

theorem decode_compact_date_witness:
  "list_all is_digit (''2013'' @ ''05'' @ ''13'') \<and> \<not> is_line_terminator (hd ''T00:00:00Z'')
   \<and> CHR ''-'' \<notin> set ''T00:00:00Z''
   \<and> decode_date ''20130513T00:00:00Z'' = parse_date_time ''2013-05-13T00:00:00Z''"
proof -
  have h1: "list_all is_digit (''2013'' @ ''05'' @ ''13'')" by (simp add: is_digit_def)
  have h2: "\<not> is_line_terminator (hd ''T00:00:00Z'')" by (simp add: is_line_terminator_def)
  have h3: "CHR ''-'' \<notin> set ''T00:00:00Z''" by simp
  have "decode_date (''2013'' @ ''05'' @ ''13'' @ ''T00:00:00Z'') =
      parse_date_time (''2013'' @ ''-'' @ ''05'' @ ''-'' @ ''13'' @ ''T00:00:00Z'')"
    by (rule decode_compact_date) (use h1 h2 h3 in simp_all)
  with h1 h2 h3 show ?thesis by simp
qed

theorem decode_xmlrpc_form_local_time_witness:
  "decode_date ''19980717T14:08:55'' =
     Some \<lparr>dt_fields = \<lparr>utc_year = 1998, utc_month = 6, utc_date = 17, utc_hours = 14,
       utc_minutes = 8, utc_seconds = 55, utc_ms = 0\<rparr>, dt_zone = ZLocal\<rparr>"
  using decode_xmlrpc_form_local_time [of "''1998''" "''07''" "''17''" "''14''" "''08''" "''55''"]
  by (simp add: is_digit_def nat_of_digits_def digit_value_def)

theorem decode_compact_time_rejected_witness:
  "decode_date ''20130513T000000Z'' = None"
  using decode_compact_time_rejected [of "''2013''" "''05''" "''13''" "''000000''" "''Z''"]
  by (simp add: is_digit_def)

theorem decode_compact_hyphen_rejected_witness:
  "decode_date ''20130513T00:00:00-05:00'' = None"
  using decode_compact_hyphen_rejected [of "''2013''" "''05''" "''13''" "''T00:00:00-05:00''"]
  by (simp add: is_digit_def)

end
