(* ===== verification/JSDate.thy ===== *)
theory JSDate
  imports DateCodec
begin

text \<open>
  The time values behind a JavaScript \<open>Date\<close> (ECMA-262, Date Objects): a time
  value is an integer count of milliseconds since 1970-01-01T00:00:00Z. This theory
  gives the language's definitions of the UTC getters (\<open>Day\<close>, \<open>DayFromYear\<close>,
  \<open>YearFromTime\<close>, \<open>MonthFromTime\<close>, \<open>DateFromTime\<close>, \<open>HourFromTime\<close>, \<dots>)
  and of the constructors \<open>MakeTime\<close>, \<open>MakeDay\<close>, \<open>MakeDate\<close>, \<open>TimeClip\<close>,
  and \<open>new_Date\<close>: the decoder of \<open>src/src/bugzilla.js\<close> (lines 135--144)
  completed with the time value \<open>new Date(text)\<close> computes, for a local time-zone
  offset \<open>tza\<close> (milliseconds, \<open>LocalTZA\<close>).

  \<open>YearFromTime\<close> is "the largest \<open>y\<close> with \<open>TimeFromYear(y) \<le> t\<close>"; it is
  computed by a search upwards from a lower bound, and the lemmas show that the search
  returns exactly that year. The lemmas then show that the getters produce valid
  fields and that the constructors invert them, so the encoder/decoder round trip of
  \<open>DateCodec\<close> lifts to time values.
\<close>

definition msPerDay :: int where
  "msPerDay = 86400000"

definition days_in_year :: "int \<Rightarrow> int" where
  "days_in_year y =
     (if y mod 4 \<noteq> 0 then 365 else if y mod 100 \<noteq> 0 then 366
      else if y mod 400 \<noteq> 0 then 365 else 366)"

definition day_from_year :: "int \<Rightarrow> int" where
  "day_from_year y = 365 * (y - 1970) + (y - 1969) div 4 - (y - 1901) div 100 + (y - 1601) div 400"

definition in_leap_year :: "int \<Rightarrow> int" where
  "in_leap_year y = (if days_in_year y = 366 then 1 else 0)"

function find_year :: "int \<Rightarrow> int \<Rightarrow> int" where
  "find_year d y = (if day_from_year (y + 1) \<le> d then find_year d (y + 1) else y)"
  by pat_completeness auto
termination
proof (relation "measure (\<lambda>(d, y). nat (d - day_from_year y))")
  fix d y :: int
  assume le: "day_from_year (y + 1) \<le> d"
  define q4 q4' q1 q1' r1 r1' q400 q400' where "q4 = (y - 1969) div 4" and "q4' = (y - 1968) div 4"
    and "q1 = (y - 1901) div 100" and "q1' = (y - 1900) div 100"
    and "r1 = (y - 1901) mod 100" and "r1' = (y - 1900) mod 100"
    and "q400 = (y - 1601) div 400" and "q400' = (y - 1600) div 400"
  have a: "q4 \<le> q4'" unfolding q4_def q4'_def by (rule zdiv_mono1) simp_all
  have c: "q400 \<le> q400'" unfolding q400_def q400'_def by (rule zdiv_mono1) simp_all
  have "q1 * 100 + r1 = y - 1901" "q1' * 100 + r1' = y - 1900"
    unfolding q1_def r1_def q1'_def r1'_def by (rule div_mult_mod_eq)+
  moreover have "r1 < 100" "0 \<le> r1'"
    unfolding r1_def r1'_def by simp_all
  ultimately have b: "q1' \<le> q1 + 1"
    by linarith
  have "day_from_year y = 365 * (y - 1970) + q4 - q1 + q400"
    "day_from_year (y + 1) = 365 * (y - 1969) + q4' - q1' + q400'"
    unfolding q4_def q4'_def q1_def q1'_def q400_def q400'_def day_from_year_def by simp_all
  with a b c have "day_from_year y < day_from_year (y + 1)"
    by (simp add: algebra_simps)
  with le show "((d, y + 1), d, y) \<in> measure (\<lambda>(d, y). nat (d - day_from_year y))"
    by simp
qed simp

definition year_lower_bound :: "int \<Rightarrow> int" where
  "year_lower_bound d = 1970 + (400 * d) div 146097 - 1"

definition year_from_day :: "int \<Rightarrow> int" where
  "year_from_day d = find_year d (year_lower_bound d)"

text \<open>First day of each month within the year (day 365 + leap closes December).\<close>

definition month_start :: "int \<Rightarrow> nat \<Rightarrow> int" where
  "month_start l m = [0, 31, 59 + l, 90 + l, 120 + l, 151 + l, 181 + l, 212 + l, 243 + l,
                      273 + l, 304 + l, 334 + l, 365 + l] ! m"

definition month_from_dwy :: "int \<Rightarrow> int \<Rightarrow> nat" where
  "month_from_dwy l d =
     (if d < 31 then 0 else if d < 59 + l then 1 else if d < 90 + l then 2
      else if d < 120 + l then 3 else if d < 151 + l then 4 else if d < 181 + l then 5
      else if d < 212 + l then 6 else if d < 243 + l then 7 else if d < 273 + l then 8
      else if d < 304 + l then 9 else if d < 334 + l then 10 else 11)"

definition utc_fields :: "int \<Rightarrow> js_date" where
  "utc_fields t =
     (let d = t div msPerDay;
          y = year_from_day d;
          l = in_leap_year y;
          dwy = d - day_from_year y;
          m = month_from_dwy l dwy
      in \<lparr>utc_year = y, utc_month = m, utc_date = nat (dwy - month_start l m + 1),
          utc_hours = nat ((t div 3600000) mod 24), utc_minutes = nat ((t div 60000) mod 60),
          utc_seconds = nat ((t div 1000) mod 60), utc_ms = nat (t mod 1000)\<rparr>)"

definition make_time :: "nat \<Rightarrow> nat \<Rightarrow> nat \<Rightarrow> nat \<Rightarrow> int" where
  "make_time h m s ms = int h * 3600000 + int m * 60000 + int s * 1000 + int ms"

definition make_day :: "int \<Rightarrow> nat \<Rightarrow> nat \<Rightarrow> int" where
  "make_day y m d =
     (let ym = y + int (m div 12); mn = m mod 12
      in day_from_year ym + month_start (in_leap_year ym) mn + int d - 1)"

definition make_date :: "int \<Rightarrow> int \<Rightarrow> int" where
  "make_date day time = day * msPerDay + time"

definition time_clip :: "int \<Rightarrow> int option" where
  "time_clip t = (if \<bar>t\<bar> > 8640000000000000 then None else Some t)"

definition time_value_of :: "int \<Rightarrow> date_time_value \<Rightarrow> int option" where
  "time_value_of tza v =
     (let f = dt_fields v;
          t = make_date (make_day (utc_year f) (utc_month f) (utc_date f))
                (make_time (utc_hours f) (utc_minutes f) (utc_seconds f) (utc_ms f))
      in time_clip (case dt_zone v of
                      ZUtc \<Rightarrow> t
                    | ZOffset off \<Rightarrow> t - off * 60000
                    | ZLocal \<Rightarrow> t - tza))"

definition new_Date :: "int \<Rightarrow> string \<Rightarrow> int option" where
  "new_Date tza text = Option.bind (decode_date text) (time_value_of tza)"

subsection \<open>Years\<close>

lemma days_in_year_indicators:
  "days_in_year y = 365 + (if y mod 4 = 0 then 1 else 0) - (if y mod 100 = 0 then 1 else 0)
                        + (if y mod 400 = 0 then 1 else 0)"
proof -
  have i1: "y mod 100 = 0 \<Longrightarrow> y mod 4 = 0"
    using mod_mod_cancel [of 4 100 y] by simp
  have i2: "y mod 400 = 0 \<Longrightarrow> y mod 100 = 0"
    using mod_mod_cancel [of 100 400 y] by simp
  show ?thesis
    using i1 i2 by (simp add: days_in_year_def)
qed

lemma day_from_year_succ:
  "day_from_year (y + 1) = day_from_year y + days_in_year y"
proof -
  define A B C where "A = (y - 1969) div 4" and "B = (y - 1901) div 100" and "C = (y - 1601) div 400"
  have d4: "(y - 1968) div 4 = A + (if y mod 4 = 0 then 1 else 0)"
    using div_succ [of 4 "y - 1969"] mod_shift_multiple [of y 492 4] unfolding A_def by simp
  have d100: "(y - 1900) div 100 = B + (if y mod 100 = 0 then 1 else 0)"
    using div_succ [of 100 "y - 1901"] mod_shift_multiple [of y 19 100] unfolding B_def by simp
  have d400: "(y - 1600) div 400 = C + (if y mod 400 = 0 then 1 else 0)"
    using div_succ [of 400 "y - 1601"] mod_shift_multiple [of y 4 400] unfolding C_def by simp
  have "day_from_year (y + 1) =
      365 * (y - 1969) + (y - 1968) div 4 - (y - 1900) div 100 + (y - 1600) div 400"
    by (simp add: day_from_year_def)
  also have "\<dots> = 365 * (y - 1969) + A - B + C + (if y mod 4 = 0 then 1 else 0)
      - (if y mod 100 = 0 then 1 else 0) + (if y mod 400 = 0 then 1 else 0)"
    by (simp only: d4 d100 d400)
  also have "\<dots> = day_from_year y + days_in_year y"
    unfolding days_in_year_indicators day_from_year_def A_def B_def C_def
    by (simp add: algebra_simps)
  finally show ?thesis .
qed

lemma days_in_year_bounds: "365 \<le> days_in_year y" "days_in_year y \<le> 366"
  by (simp_all add: days_in_year_def)

lemma in_leap_year_days: "in_leap_year y = days_in_year y - 365"
  by (simp add: in_leap_year_def days_in_year_def)

lemma day_from_year_mono_strict: "y < y' \<Longrightarrow> day_from_year y < day_from_year y'"
proof (induction y' rule: int_gr_induct)
  case base
  then show ?case using day_from_year_succ [of y] days_in_year_bounds [of y] by simp
next
  case (step y')
  then show ?case using day_from_year_succ [of y'] days_in_year_bounds [of y'] by simp
qed

lemma day_from_year_mono: "y \<le> y' \<Longrightarrow> day_from_year y \<le> day_from_year y'"
  using day_from_year_mono_strict [of y y'] by (cases "y = y'") simp_all

lemma find_year_spec:
  "day_from_year y \<le> d \<Longrightarrow>
   day_from_year (find_year d y) \<le> d \<and> d < day_from_year (find_year d y + 1)"
proof (induction d y rule: find_year.induct)
  case (1 d y)
  show ?case
  proof (cases "day_from_year (y + 1) \<le> d")
    case True
    with "1.IH" show ?thesis by (simp add: find_year.simps [of d y])
  next
    case False
    with "1.prems" show ?thesis by (simp add: find_year.simps [of d y])
  qed
qed

lemma year_lower_bound_le: "day_from_year (year_lower_bound d) \<le> d"
proof -
  define k where "k = (400 * d) div 146097 - 1"
  define a b c where "a = (k + 1) div 4" and "b = (k + 69) div 100" and "c = (k + 369) div 400"
  have k: "146097 * (k + 1) \<le> 400 * d"
    unfolding k_def using div_mult_mod_eq [of "400 * d" 146097] pos_mod_sign [of 146097 "400 * d"]
    by simp
  have ab: "4 * a \<le> k + 1" "k + 69 < 100 * b + 100" "400 * c \<le> k + 369"
    unfolding a_def b_def c_def
    using div_mult_mod_eq [of "k + 1" 4] pos_mod_sign [of 4 "k + 1"]
      div_mult_mod_eq [of "k + 69" 100] pos_mod_bound [of 100 "k + 69"]
      div_mult_mod_eq [of "k + 369" 400] pos_mod_sign [of 400 "k + 369"]
    by simp_all
  have "day_from_year (year_lower_bound d) = 365 * k + a - b + c"
    unfolding day_from_year_def year_lower_bound_def k_def a_def b_def c_def
    by (simp add: algebra_simps)
  with k ab show ?thesis by simp
qed

lemma year_from_day_spec:
  "day_from_year (year_from_day d) \<le> d \<and> d < day_from_year (year_from_day d + 1)"
  unfolding year_from_day_def by (rule find_year_spec [OF year_lower_bound_le])

lemma year_from_day_unique:
  assumes "day_from_year y \<le> d" and "d < day_from_year (y + 1)"
  shows "year_from_day d = y"
proof -
  have "\<not> y < year_from_day d"
    using assms(2) year_from_day_spec [of d] day_from_year_mono [of "y + 1" "year_from_day d"]
    by auto
  moreover have "\<not> year_from_day d < y"
    using assms(1) year_from_day_spec [of d] day_from_year_mono [of "year_from_day d + 1" y]
    by auto
  ultimately show ?thesis by simp
qed

subsection \<open>Months and days\<close>

lemma month_from_dwy_bounds:
  assumes "l = 0 \<or> l = 1" and "0 \<le> d" and "d < 365 + l"
  shows "month_from_dwy l d < 12
    \<and> month_start l (month_from_dwy l d) \<le> d
    \<and> d < month_start l (Suc (month_from_dwy l d))
    \<and> month_start l (Suc (month_from_dwy l d)) - month_start l (month_from_dwy l d) \<le> 31"
  using assms by (auto simp: month_from_dwy_def month_start_def)

lemma leap_cases: "in_leap_year y = 0 \<or> in_leap_year y = 1"
  by (simp add: in_leap_year_def)

lemma day_within_year_bounds:
  "0 \<le> d - day_from_year (year_from_day d)"
  "d - day_from_year (year_from_day d) < 365 + in_leap_year (year_from_day d)"
  using year_from_day_spec [of d] day_from_year_succ [of "year_from_day d"]
  by (simp_all add: in_leap_year_days)

subsection \<open>Time of day\<close>

lemma time_of_day:
  "make_time (nat ((t div 3600000) mod 24)) (nat ((t div 60000) mod 60))
     (nat ((t div 1000) mod 60)) (nat (t mod 1000)) = t mod msPerDay"
proof -
  define a b c e where "a = t div 1000" and "b = t div 60000" and "c = t div 3600000"
    and "e = t div 86400000"
  define r0 s mi h r where "r0 = t mod 1000" and "s = a mod 60" and "mi = b mod 60"
    and "h = c mod 24" and "r = t mod 86400000"
  have ab: "b = a div 60" and bc: "c = b div 60" and ce: "e = c div 24"
    unfolding a_def b_def c_def e_def
    using zdiv_zmult2_eq [of 60 t 1000] zdiv_zmult2_eq [of 60 t 60000]
      zdiv_zmult2_eq [of 24 t 3600000]
    by simp_all
  have eqs: "t = a * 1000 + r0" "a = b * 60 + s" "b = c * 60 + mi" "c = e * 24 + h"
    unfolding r0_def s_def mi_def h_def a_def ab bc ce by simp_all
  have eq5: "t = e * 86400000 + r"
    unfolding r_def e_def by simp
  have "make_time (nat ((t div 3600000) mod 24)) (nat ((t div 60000) mod 60))
     (nat ((t div 1000) mod 60)) (nat (t mod 1000)) = h * 3600000 + mi * 60000 + s * 1000 + r0"
    unfolding make_time_def h_def mi_def s_def r0_def a_def b_def c_def by simp
  also have "\<dots> = r"
    using eqs eq5 by linarith
  finally show ?thesis
    unfolding r_def msPerDay_def .
qed

subsection \<open>The getters and the constructors\<close>

lemma utc_fields_calendar:
  obtains Y l dwy m where
    "utc_fields t = \<lparr>utc_year = Y, utc_month = m, utc_date = nat (dwy - month_start l m + 1),
       utc_hours = nat ((t div 3600000) mod 24), utc_minutes = nat ((t div 60000) mod 60),
       utc_seconds = nat ((t div 1000) mod 60), utc_ms = nat (t mod 1000)\<rparr>"
    and "Y = year_from_day (t div msPerDay)" and "l = in_leap_year Y"
    and "dwy = t div msPerDay - day_from_year Y" and "m < 12"
    and "month_start l m \<le> dwy" and "dwy < month_start l (Suc m)"
    and "month_start l (Suc m) - month_start l m \<le> 31"
proof -
  define Y where "Y = year_from_day (t div msPerDay)"
  define l where "l = in_leap_year Y"
  define dwy where "dwy = t div msPerDay - day_from_year Y"
  define m where "m = month_from_dwy l dwy"
  have "m < 12 \<and> month_start l m \<le> dwy \<and> dwy < month_start l (Suc m)
      \<and> month_start l (Suc m) - month_start l m \<le> 31"
    unfolding m_def
    using month_from_dwy_bounds [OF leap_cases day_within_year_bounds [of "t div msPerDay"]]
    unfolding Y_def l_def dwy_def .
  moreover have "utc_fields t = \<lparr>utc_year = Y, utc_month = m, utc_date = nat (dwy - month_start l m + 1),
       utc_hours = nat ((t div 3600000) mod 24), utc_minutes = nat ((t div 60000) mod 60),
       utc_seconds = nat ((t div 1000) mod 60), utc_ms = nat (t mod 1000)\<rparr>"
    unfolding utc_fields_def Y_def l_def dwy_def m_def by (simp add: Let_def)
  ultimately show ?thesis using that Y_def l_def dwy_def by blast
qed

lemma valid_utc_fields: "valid_fields (utc_fields t)"
proof -
  obtain Y l dwy m where u: "utc_fields t = \<lparr>utc_year = Y, utc_month = m,
       utc_date = nat (dwy - month_start l m + 1),
       utc_hours = nat ((t div 3600000) mod 24), utc_minutes = nat ((t div 60000) mod 60),
       utc_seconds = nat ((t div 1000) mod 60), utc_ms = nat (t mod 1000)\<rparr>"
    and "m < 12" "month_start l m \<le> dwy" "dwy < month_start l (Suc m)"
    "month_start l (Suc m) - month_start l m \<le> 31"
    by (rule utc_fields_calendar)
  then have "1 \<le> nat (dwy - month_start l m + 1)" "nat (dwy - month_start l m + 1) \<le> 31"
    by simp_all
  moreover have "nat ((t div 3600000) mod 24) < 24" "nat ((t div 60000) mod 60) < 60"
    "nat ((t div 1000) mod 60) < 60"
    by (simp_all add: nat_less_iff)
  ultimately show ?thesis
    using \<open>m < 12\<close> unfolding valid_fields_def u by simp
qed

lemma make_date_of_utc_fields:
  "make_date (make_day (utc_year (utc_fields t)) (utc_month (utc_fields t)) (utc_date (utc_fields t)))
     (make_time (utc_hours (utc_fields t)) (utc_minutes (utc_fields t)) (utc_seconds (utc_fields t))
        (utc_ms (utc_fields t))) = t"
proof -
  obtain Y l dwy m where u: "utc_fields t = \<lparr>utc_year = Y, utc_month = m,
       utc_date = nat (dwy - month_start l m + 1),
       utc_hours = nat ((t div 3600000) mod 24), utc_minutes = nat ((t div 60000) mod 60),
       utc_seconds = nat ((t div 1000) mod 60), utc_ms = nat (t mod 1000)\<rparr>"
    and l: "l = in_leap_year Y" and dwy: "dwy = t div msPerDay - day_from_year Y"
    and m: "m < 12" "month_start l m \<le> dwy"
    by (rule utc_fields_calendar)
  have m12: "m div 12 = 0" "m mod 12 = m"
    using m by simp_all
  have D: "int (nat (dwy - month_start l m + 1)) = dwy - month_start l m + 1"
    using m(2) by linarith
  have "make_day Y m (nat (dwy - month_start l m + 1)) =
      day_from_year Y + month_start l m + (dwy - month_start l m + 1) - 1"
    unfolding make_day_def Let_def m12 D by (simp add: l)
  also have "\<dots> = t div msPerDay"
    unfolding dwy by simp
  finally have "make_day Y m (nat (dwy - month_start l m + 1)) = t div msPerDay" .
  then have "make_date (make_day Y m (nat (dwy - month_start l m + 1)))
      (make_time (nat ((t div 3600000) mod 24)) (nat ((t div 60000) mod 60))
        (nat ((t div 1000) mod 60)) (nat (t mod 1000))) = t"
    unfolding make_date_def time_of_day by (simp only: div_mult_mod_eq)
  then show ?thesis
    unfolding u js_date.select_convs .
qed

lemma utc_ms_zero:
  assumes "t mod 1000 = 0"
  shows "(utc_fields t)\<lparr>utc_ms := 0\<rparr> = utc_fields t"
proof -
  obtain Y l dwy m where u: "utc_fields t = \<lparr>utc_year = Y, utc_month = m,
       utc_date = nat (dwy - month_start l m + 1),
       utc_hours = nat ((t div 3600000) mod 24), utc_minutes = nat ((t div 60000) mod 60),
       utc_seconds = nat ((t div 1000) mod 60), utc_ms = nat (t mod 1000)\<rparr>"
    by (rule utc_fields_calendar)
  show ?thesis
    unfolding u using assms by simp
qed

text \<open>
  The search \<open>year_from_day\<close> computes \<open>YearFromTime\<close> as the language defines
  it: the largest year whose first day is not after the given day.
\<close>

lemma year_from_day_greatest: "year_from_day d = (GREATEST y. day_from_year y \<le> d)"
proof (rule Greatest_equality [symmetric])
  show "day_from_year (year_from_day d) \<le> d"
    using year_from_day_spec [of d] by (rule conjunct1)
next
  fix y
  assume y: "day_from_year y \<le> d"
  show "y \<le> year_from_day d"
  proof (rule ccontr)
    assume "\<not> y \<le> year_from_day d"
    then have "day_from_year (year_from_day d + 1) \<le> day_from_year y"
      by (intro day_from_year_mono) simp
    with y year_from_day_spec [of d] show False by simp
  qed
qed

subsection \<open>Properties\<close>

lemma new_Date_encode_date_time:
  assumes "format_year (utc_year (utc_fields t))" and "t mod 1000 = 0"
    and "\<bar>t\<bar> \<le> 8640000000000000"
  shows "new_Date tza (encode_date (utc_fields t)) = Some t"
proof -
  have "decode_date (encode_date (utc_fields t)) =
      Some \<lparr>dt_fields = utc_fields t, dt_zone = ZUtc\<rparr>"
    using decode_encode_fields [OF valid_utc_fields assms(1)] unfolding utc_ms_zero [OF assms(2)] .
  moreover have "time_value_of tza \<lparr>dt_fields = utc_fields t, dt_zone = ZUtc\<rparr> = time_clip t"
    unfolding time_value_of_def Let_def date_time_value.simps time_zone.case
    by (rule arg_cong [where f = time_clip], rule make_date_of_utc_fields)
  moreover have "time_clip t = Some t"
    using assms(3) unfolding time_clip_def by simp
  ultimately show ?thesis
    unfolding new_Date_def by simp
qed

text \<open>
  C21: the encoder's text, read back by \<open>new Date\<close>, gives the time value it was
  made from, for every local offset: when the year is written in the format, the time
  has whole seconds (the encoder drops milliseconds) and lies in the range
  \<open>TimeClip\<close> accepts.
\<close>

theorem new_Date_encode_date:
  assumes "format_year (utc_year (utc_fields t))" and "t mod 1000 = 0"
    and "\<bar>t\<bar> \<le> 8640000000000000"
  shows "new_Date tza (encode_date (utc_fields t)) = Some t"
  using assms by (rule new_Date_encode_date_time)

theorem new_Date_encode_date_witness:
  "format_year (utc_year (utc_fields 1368403200000)) \<and> (1368403200000::int) mod 1000 = 0
   \<and> \<bar>1368403200000::int\<bar> \<le> 8640000000000000
   \<and> new_Date 0 (encode_date (utc_fields 1368403200000)) = Some 1368403200000"
proof -
  have u: "utc_fields 1368403200000 = \<lparr>utc_year = 2013, utc_month = 4, utc_date = 13,
      utc_hours = 0, utc_minutes = 0, utc_seconds = 0, utc_ms = 0\<rparr>"
    by code_simp
  have "format_year (utc_year (utc_fields 1368403200000))"
    unfolding u by (simp add: format_year_def)
  then show ?thesis
    using new_Date_encode_date [of 1368403200000 0] by simp
qed

end
