(* ===== verification/XmlValues.thy ===== *)
theory XmlValues
  imports Bugzilla JSDate
begin

text \<open>
  The XML-RPC value layer of jquery-xmlrpc with the \<open>dateTime.iso8601\<close> type that
  \<open>src/src/bugzilla.js\<close> registers (\<open>$.xmlrpc.makeType\<close>, lines 129--144):
  how the parameters of a call become XML-RPC values and how the values of a response
  become JavaScript values. The plugin is not in the repository; its value mapping is
  modelled from its documentation: a number is an \<open>int\<close> when it is integral and a
  \<open>double\<close> otherwise, \<open>null\<close> and \<open>undefined\<close> are \<open>nil\<close>, arrays and objects
  are \<open>array\<close> and \<open>struct\<close>, and a \<open>Date\<close> goes through the registered encoder;
  in a response a \<open>dateTime.iso8601\<close> goes through the registered decoder,
  \<open>new Date(text)\<close> at the local offset \<open>tza\<close>. The XML text itself stays
  abstract (\<open>xml_transport\<close> takes the HTTP exchange and the XML parser as
  parameters).

  An invalid \<open>Date\<close> has \<open>NaN\<close> getters; the encoder then writes \<open>NaN\<close> in every
  field (\<open>_pad\<close> leaves \<open>NaN\<close> unpadded, since \<open>NaN < 10\<close> is false).
\<close>

datatype xval =
    XInt int
  | XDouble "rat option"
  | XBool bool
  | XString string
  | XDateTime string
  | XArray "xval list"
  | XStruct "(string \<times> xval) list"
  | XNil

definition invalid_date_text :: string where
  "invalid_date_text = ''NaN-NaN-NaNTNaN:NaN:NaNZ''"

text \<open>The registered encoder and decoder on \<open>Date\<close> values.\<close>

fun encode_Date :: "int option \<Rightarrow> string" where
  "encode_Date (Some t) = encode_date (utc_fields t)"
| "encode_Date None = invalid_date_text"

definition decode_Date :: "int \<Rightarrow> string \<Rightarrow> jval" where
  "decode_Date tza text = JDate (new_Date tza text)"

fun to_xmlrpc :: "jval \<Rightarrow> xval" where
  "to_xmlrpc JUndefined = XNil"
| "to_xmlrpc JNull = XNil"
| "to_xmlrpc (JBool b) = XBool b"
| "to_xmlrpc (JNumber q) = (if of_int \<lfloor>q\<rfloor> = q then XInt \<lfloor>q\<rfloor> else XDouble (Some q))"
| "to_xmlrpc JNaN = XDouble None"
| "to_xmlrpc (JString s) = XString s"
| "to_xmlrpc (JArray xs) = XArray (map to_xmlrpc xs)"
| "to_xmlrpc (JObject ps) = XStruct (map (\<lambda>(k, v). (k, to_xmlrpc v)) ps)"
| "to_xmlrpc (JDate d) = XDateTime (encode_Date d)"

fun from_xmlrpc :: "int \<Rightarrow> xval \<Rightarrow> jval" where
  "from_xmlrpc tza (XInt i) = JNumber (of_int i)"
| "from_xmlrpc tza (XDouble (Some q)) = JNumber q"
| "from_xmlrpc tza (XDouble None) = JNaN"
| "from_xmlrpc tza (XBool b) = JBool b"
| "from_xmlrpc tza (XString s) = JString s"
| "from_xmlrpc tza (XDateTime s) = decode_Date tza s"
| "from_xmlrpc tza (XArray xs) = JArray (map (from_xmlrpc tza) xs)"
| "from_xmlrpc tza (XStruct ps) = JObject (map (\<lambda>(k, v). (k, from_xmlrpc tza v)) ps)"
| "from_xmlrpc tza XNil = JNull"

text \<open>
  The values that survive the trip to a server and back unchanged: everything but
  \<open>undefined\<close> (sent as \<open>nil\<close>, read back as \<open>null\<close>), and dates whose
  text the decoder reads back exactly (whole seconds, a year in the format, inside the
  \<open>TimeClip\<close> range).
\<close>

fun wire_ok :: "jval \<Rightarrow> bool" where
  "wire_ok JUndefined = False"
| "wire_ok (JArray xs) = list_all wire_ok xs"
| "wire_ok (JObject ps) = list_all (\<lambda>p. wire_ok (snd p)) ps"
| "wire_ok (JDate (Some t)) =
     (format_year (utc_year (utc_fields t)) \<and> t mod 1000 = 0 \<and> \<bar>t\<bar> \<le> 8640000000000000)"
| "wire_ok v = True"

text \<open>
  A transport built from the HTTP exchange of XML-RPC values and the parser of the
  response's parameters (a fault or unparsable body is the error of \<open>parse\<close>).
\<close>

definition xml_transport ::
  "(string \<Rightarrow> string \<Rightarrow> xval list \<Rightarrow> error + string) \<Rightarrow> (string \<Rightarrow> error + xval list) \<Rightarrow> int \<Rightarrow> transport"
  where
  "xml_transport http parse tza =
     \<lparr>post = \<lambda>u m ps. http u m (map to_xmlrpc ps),
      decode = \<lambda>body. map_sum id (\<lambda>xs. JArray (map (from_xmlrpc tza) xs)) (parse body)\<rparr>"

subsection \<open>Lemmas\<close>

lemma new_Date_invalid_date_text: "new_Date tza invalid_date_text = None"
proof -
  have "decode_date invalid_date_text = None"
    unfolding invalid_date_text_def by code_simp
  then show ?thesis by (simp add: new_Date_def)
qed

lemma from_to_xmlrpc: "wire_ok v \<Longrightarrow> from_xmlrpc tza (to_xmlrpc v) = v"
proof (induction v)
  case (JArray xs)
  then show ?case by (auto simp: list_all_iff intro: map_idI)
next
  case (JObject ps)
  then show ?case by (auto simp: list_all_iff intro!: map_idI)
next
  case (JDate d)
  then show ?case
    by (cases d) (simp_all add: decode_Date_def new_Date_invalid_date_text new_Date_encode_date_time)
qed simp_all

lemma xmlrpc_echo:
  assumes "http u m [to_xmlrpc q] = Inr body" and "parse body = Inr [to_xmlrpc q]" and "wire_ok q"
  shows "xmlrpc (xml_transport http parse tza) (request u m [q]) = Inr (JArray [q])"
  using assms by (simp add: xmlrpc_def xml_transport_def from_to_xmlrpc)

subsection \<open>Properties of the value layer\<close>

text \<open>
  C22: \<open>searchBugs\<close> with criteria that contain dates, over the XML-RPC transport
  with the registered date codec, settles with exactly the criteria when the server
  echoes its parameters: the dates come back with the time values that were sent.
\<close>

theorem searchBugs_echo:
  assumes "http (url b) ''Bug.search'' [to_xmlrpc q] = Inr body"
    and "parse body = Inr [to_xmlrpc q]" and "wire_ok q"
  shows "outcome (searchBugs b (xml_transport http parse tza) q) = Inr (JArray [q])"
  using xmlrpc_echo [where http = http and u = "url b" and m = "''Bug.search''" and q = q and parse = parse
      and tza = tza, OF assms] by (simp add: searchBugs_def issue_def)

subsection \<open>Witnesses\<close>

lemma wire_ok_example:
  "wire_ok (JObject [(''last_change_time'', JDate (Some 1368403200000)), (''limit'', JNumber 10)])"
proof -
  have u: "utc_fields 1368403200000 = \<lparr>utc_year = 2013, utc_month = 4, utc_date = 13,
      utc_hours = 0, utc_minutes = 0, utc_seconds = 0, utc_ms = 0\<rparr>"
    by code_simp
  show ?thesis by (simp add: u format_year_def)
qed

theorem searchBugs_echo_witness:
  "(\<lambda>u m xs. Inr ''<methodResponse/>'') (url Bugzilla) ''Bug.search''
      [to_xmlrpc (JObject [(''last_change_time'', JDate (Some 1368403200000)), (''limit'', JNumber 10)])]
     = (Inr ''<methodResponse/>'' :: error + string)
   \<and> (\<lambda>s. Inr [to_xmlrpc (JObject [(''last_change_time'', JDate (Some 1368403200000)), (''limit'', JNumber 10)])])
       ''<methodResponse/>''
     = (Inr [to_xmlrpc (JObject [(''last_change_time'', JDate (Some 1368403200000)), (''limit'', JNumber 10)])]
         :: error + xval list)
   \<and> wire_ok (JObject [(''last_change_time'', JDate (Some 1368403200000)), (''limit'', JNumber 10)])
   \<and> outcome (searchBugs Bugzilla
        (xml_transport (\<lambda>u m xs. Inr ''<methodResponse/>'')
          (\<lambda>s. Inr [to_xmlrpc (JObject [(''last_change_time'', JDate (Some 1368403200000)), (''limit'', JNumber 10)])])
          7200000)
        (JObject [(''last_change_time'', JDate (Some 1368403200000)), (''limit'', JNumber 10)]))
     = Inr (JArray [JObject [(''last_change_time'', JDate (Some 1368403200000)), (''limit'', JNumber 10)]])"
  using wire_ok_example
    searchBugs_echo [of "\<lambda>u m xs. Inr ''<methodResponse/>''" Bugzilla
      "JObject [(''last_change_time'', JDate (Some 1368403200000)), (''limit'', JNumber 10)]"
      "''<methodResponse/>''"
      "\<lambda>s. Inr [to_xmlrpc (JObject [(''last_change_time'', JDate (Some 1368403200000)), (''limit'', JNumber 10)])]"
      7200000]
  by simp

end
