(* ===== verification/Spec2Isabelle.thy ===== *)
theory Spec2Isabelle
  imports Bugzilla JSDate XmlValues
begin

text \<open>
  \<^bold>\<open>A verification library for the Bugzilla XML-RPC client\<close>
  (\<open>src/src/bugzilla.js\<close>, the whole program).

  \<^bold>\<open>The program.\<close> A JavaScript class \<open>Bugzilla\<close> whose instances hold one
  field, the server URL, and whose six prototype methods (\<open>getVersion\<close>,
  \<open>getBug\<close>, \<open>addComment\<close>, \<open>updateBug\<close>, \<open>searchBugs\<close>,
  \<open>getProducts\<close>) each marshal a method name and parameters into a call of the
  jquery-xmlrpc plugin \<open>$.xmlrpc\<close> and return its promise. \<open>getProducts\<close>
  chains two calls, the second with a \<open>dataFilter\<close> that repairs a malformed
  closing tag in the raw response. A module-level statement registers a codec for the
  XML-RPC type \<open>dateTime.iso8601\<close> (encoder from a \<open>Date\<close>, decoder from text).

  \<^bold>\<open>Theories and what they model.\<close>
  \<^item> \<open>Prelude\<close>: decimal digits, line terminators, the decimal text of numbers
    (\<open>string_of_nat\<close>, \<open>string_of_int\<close>, \<open>nat_of_digits\<close>) and their lemmas.
  \<^item> \<open>JSValue\<close>: JavaScript values (\<open>jval\<close>), the error type, \<open>ToBoolean\<close>
    (\<open>truthy\<close>, \<open>js_or\<close> for \<open>||\<close>), property read (\<open>get_member\<close>,
    \<open>get_index\<close>) and strict-mode assignment (\<open>set_member\<close>, \<open>set_prop\<close>)
    with the invariant that an object's keys are distinct (\<open>wf_props\<close>).
  \<^item> \<open>XmlRpc\<close>: the transport the client calls, as an interface: a request record
    (the \<open>$.xmlrpc\<close> settings), a \<open>transport\<close> (server and XML decoder, any
    functions), \<open>xmlrpc\<close> (POST, \<open>dataFilter\<close>, decode), and the promise as the
    list of requests it issues with its settlement (\<open>issue\<close>, \<open>settle\<close>,
    \<open>then_call\<close>, with the monad laws). Modelled from jQuery's documented
    contract, since the plugin is not in the repository.
  \<^item> \<open>ResponseFilter\<close>: \<open>fix_methodResponse\<close>, the \<open>dataFilter\<close> of
    \<open>getProducts\<close> (\<open>data.replace(/<\/methodR.*/, '</methodResponse>')\<close>).
  \<^item> \<open>DateCodec\<close>: the \<open>dateTime.iso8601\<close> encoder \<open>encode_date\<close> (with
    \<open>pad\<close> for the undefined helper \<open>_pad\<close>), the decoder's hyphen insertion
    \<open>insert_date_hyphens\<close>/\<open>decode_text\<close>, and the ECMAScript Date Time String
    Format that \<open>new Date(text)\<close> reads (\<open>parse_date_time\<close>), giving
    \<open>decode_date\<close>. A \<open>Date\<close> is represented by its UTC getter values
    (\<open>js_date\<close>); a decoded text by those fields and the zone they are read in.
  \<^item> \<open>JSDate\<close>: the time values behind \<open>Date\<close>, from ECMA-262 (the language,
    not code of the repository): \<open>DayFromYear\<close>, \<open>YearFromTime\<close>
    (\<open>year_from_day\<close>, a search upward from a lower bound, proved to compute the
    greatest year whose start is not after the day), \<open>MonthFromTime\<close>, the UTC
    getters (\<open>utc_fields\<close>), the constructors \<open>MakeTime\<close>, \<open>MakeDay\<close>,
    \<open>MakeDate\<close>, \<open>TimeClip\<close>, and \<open>new_Date\<close>, the value
    \<open>return new Date(text)\<close> of the decoder computes for a local time-zone offset
    \<open>tza\<close>.
  \<^item> \<open>Bugzilla\<close>: the constructor (\<open>Bugzilla\<close>) and the six methods, one
    definition each, over an arbitrary transport, and \<open>client_op\<close>/\<open>op_requests\<close>,
    the method calls as one datatype with the requests each issues.
  \<^item> \<open>XmlValues\<close>: the XML-RPC value layer of the plugin (\<open>xval\<close>,
    \<open>to_xmlrpc\<close>, \<open>from_xmlrpc\<close>) with the \<open>dateTime.iso8601\<close> codec the module
    registers (\<open>encode_Date\<close>, \<open>decode_Date\<close>), and \<open>xml_transport\<close>, a
    transport built from an HTTP exchange of such values and a response parser, so that
    \<open>Date\<close> values (\<open>JDate\<close>, by their time value) travel as parameters and results.
  \<^item> This theory: the property that spans the client and the response filter.

  \<^bold>\<open>What is proved.\<close> \<open>getProducts\<close> is a strictly sequenced chain (C1, C2,
  C14) whose second response is repaired by the filter before decoding (C3); the
  date codec round-trips every date whose year the format can carry and no other
  (C4, C5), and its compact-date rewriting agrees with the hyphenated form (C6); the
  filter replaces exactly the leftmost tag to the end of its line (C7), is idempotent
  (C8), leaves well-formed bodies alone (C9), and yields a body ending in the closing
  tag when the body is one line (C10). On the decoder's inputs in general: the
  XML-RPC form \<open>YYYYMMDDTHH:MM:SS\<close> is read field by field but in local time (C11),
  a compact time \<open>hhmmss\<close> is never decoded (C12), and neither is a compact date
  whose text holds a hyphen, such as a negative offset (C13). The simple methods
  issue exactly the call the spec lists (C15, C16), \<open>updateBug\<close> mutates the
  caller's object in place, keeps its keys distinct and throws on non-objects (C17,
  C18), \<open>getVersion\<close> never surfaces a failure and logs one line (C19), and every
  call goes to the client's URL and names one of the seven remote methods (C20). At
  the level of time values, encoding a \<open>Date\<close> and reading the text back with
  \<open>new Date\<close> gives the same time value whatever the local offset, for whole
  seconds and years the format carries (C21). Across the value layer,
  \<open>searchBugs\<close> with date criteria over an echoing server gets its criteria back
  with the same time values (C22).

  \<^bold>\<open>Choices.\<close> No loop of the program needs fuel: every recursion of the model
  is structural on a string or a number, except the year search of \<open>JSDate\<close>,
  a \<open>function\<close> whose termination is proved by the measure "days from the
  candidate year's start to the given day"; it starts from an average-year estimate
  less one, proved to be at or below the answer (\<open>year_lower_bound_le\<close>).
  Numbers are rationals with \<open>NaN\<close> apart;
  strings are lists of one-byte characters, so the line terminators U+2028/U+2029 are
  outside the model. \<open>then_call\<close> follows Promises/A+ (jQuery 3): an exception in
  the handler rejects the chained promise. The transport is stateless: it answers a
  request by a function of the request, and every method is stated for every
  transport.

  \<^bold>\<open>Not modelled.\<close> The XML text that jquery-xmlrpc writes and parses and the
  HTTP exchange (behind the \<open>transport\<close> interface and the parameters of
  \<open>xml_transport\<close>); the value mapping itself is modelled from the plugin's
  documentation; the console as a device beyond the list of lines written; a heap of
  JavaScript objects: the plugin serialises the parameters when \<open>$.xmlrpc\<close> is
  called, so a later mutation of an object the caller shares cannot reach a request
  already made, and the one observable effect, the caller's object mutated by
  \<open>updateBug\<close>, is the object the model returns (C17); timeouts and cancellation
  (the code sets none). The page's event loop, which interleaves the answers of
  concurrent calls, is not modelled: the client keeps no state between calls (every
  method reads only its arguments and the \<open>url\<close> field, which nothing writes), so
  each call's requests and settlement are those of the call run alone, and an
  interleaving adds no behaviour of the program's own. The local time-zone offset is
  a parameter \<open>tza\<close>, fixed for the whole computation (daylight saving time, which
  makes it depend on the instant, is outside the model); an invalid \<open>Date\<close> is
  encoded under the assumption that the undefined \<open>_pad\<close> leaves \<open>NaN\<close> unpadded.

  What remains outside is outside the repository or implementation-defined: the
  plugin's XML text and HTTP exchange, the strings other than the Date Time String
  Format that a browser's \<open>Date\<close> parser may accept, and the parts of \<open>Date\<close> and
  of the console the program never uses. Every function of \<open>src/src/bugzilla.js\<close> is
  modelled; the lines of the file the map leaves out are its comments.
\<close>

subsection \<open>The client and the filter\<close>

text \<open>
  C3: when the first call of \<open>getProducts\<close> yields ids and the server answers the
  \<open>Product.get\<close> call with a body, the combined promise settles with the decoding
  of the repaired body, not of the raw one.
\<close>

theorem getProducts_repairs_body:
  assumes "xmlrpc t (request (url b) ''Product.get_enterable_products'' []) = Inr response"
    and "get_index_member response 0 ''ids'' = Inr ids"
    and "post t (url b) ''Product.get'' [JObject [(''ids'', ids)]] = Inr body"
  shows "outcome (getProducts b t) = decode t (fix_methodResponse body)"
  using assms
  by (simp add: getProducts_steps then_issue_resolved) (simp add: issue_def xmlrpc_products_request)

subsection \<open>Witnesses\<close>

theorem getProducts_repairs_body_witness:
  "xmlrpc \<lparr>post = \<lambda>u m ps. if m = ''Product.get'' then Inr ''<p/></methodRes'' else Inr ''<e/>'', decode = \<lambda>s. if s = ''<e/>'' then Inr (JArray [JObject [(''ids'', JArray [JNumber 1])]]) else Inr (JString s)\<rparr> (request (url Bugzilla) ''Product.get_enterable_products'' []) =
     Inr (JArray [JObject [(''ids'', JArray [JNumber 1])]])
   \<and> get_index_member (JArray [JObject [(''ids'', JArray [JNumber 1])]]) 0 ''ids'' = Inr (JArray [JNumber 1])
   \<and> post \<lparr>post = \<lambda>u m ps. if m = ''Product.get'' then Inr ''<p/></methodRes'' else Inr ''<e/>'', decode = \<lambda>s. if s = ''<e/>'' then Inr (JArray [JObject [(''ids'', JArray [JNumber 1])]]) else Inr (JString s)\<rparr> (url Bugzilla) ''Product.get'' [JObject [(''ids'', JArray [JNumber 1])]] = Inr ''<p/></methodRes''
   \<and> outcome (getProducts Bugzilla \<lparr>post = \<lambda>u m ps. if m = ''Product.get'' then Inr ''<p/></methodRes'' else Inr ''<e/>'', decode = \<lambda>s. if s = ''<e/>'' then Inr (JArray [JObject [(''ids'', JArray [JNumber 1])]]) else Inr (JString s)\<rparr>) = Inr (JString ''<p/></methodResponse>'')"
proof -
  have h1: "xmlrpc \<lparr>post = \<lambda>u m ps. if m = ''Product.get'' then Inr ''<p/></methodRes'' else Inr ''<e/>'', decode = \<lambda>s. if s = ''<e/>'' then Inr (JArray [JObject [(''ids'', JArray [JNumber 1])]]) else Inr (JString s)\<rparr> (request (url Bugzilla) ''Product.get_enterable_products'' []) =
     Inr (JArray [JObject [(''ids'', JArray [JNumber 1])]])"
    by (simp add: xmlrpc_def)
  have h2: "get_index_member (JArray [JObject [(''ids'', JArray [JNumber 1])]]) 0 ''ids'' = Inr (JArray [JNumber 1])"
    by (simp add: get_index_member_def)
  have h3: "post \<lparr>post = \<lambda>u m ps. if m = ''Product.get'' then Inr ''<p/></methodRes'' else Inr ''<e/>'', decode = \<lambda>s. if s = ''<e/>'' then Inr (JArray [JObject [(''ids'', JArray [JNumber 1])]]) else Inr (JString s)\<rparr> (url Bugzilla) ''Product.get'' [JObject [(''ids'', JArray [JNumber 1])]] = Inr ''<p/></methodRes''"
    by simp
  have "decode \<lparr>post = \<lambda>u m ps. if m = ''Product.get'' then Inr ''<p/></methodRes'' else Inr ''<e/>'', decode = \<lambda>s. if s = ''<e/>'' then Inr (JArray [JObject [(''ids'', JArray [JNumber 1])]]) else Inr (JString s)\<rparr> (fix_methodResponse ''<p/></methodRes'') = Inr (JString ''<p/></methodResponse>'')"
    by code_simp
  with getProducts_repairs_body [OF h1 h2 h3] h1 h2 h3 show ?thesis by simp
qed

end
